theory Spec2Isabelle
  imports Complex_Main
begin

section \<open>Exceptions\<close>

text \<open>
  Every exception of the Python sources is a value; a function that can raise returns
  \<open>exn + 'a\<close>, with \<open>Inl\<close> for the raised exception.  The string is the message.
  \<open>NotEqualError\<close> is the comparison error of \<^verbatim>\<open>equal.py\<close>; the kinds after
  \<open>NotImplementedError\<close> are the selection and construction errors of the specification
  (sections 4.2 to 4.4), raised by the core package.
\<close>

datatype exn =
    NotEqualError string
  | ValueError string
  | TypeError string
  | IndexError string
  | NotImplementedError string
  | NoMatchError string
  | AmbiguousMatchError string
  | TooManyArgumentsError string
  | ShapeMismatchError string
  | DuplicateGradientError string
  | GradientShapeMismatchError string
  | DuplicateKeyError string
  | LengthMismatchError string
  | InconsistentMetadataError string
  | NotFoundError string

section \<open>Array backend dispatch (\<^verbatim>\<open>_dispatch.py\<close>)\<close>

text \<open>
  The dispatch functions branch on the run-time class of their argument.  An argument is
  tagged with that class: a numpy array, a torch tensor, or an object of any other class.
  The numeric kernels are external, so the value a dispatcher returns is recorded as the
  library call it makes: the library, the function's name and the arrays handed over.
\<close>

datatype 'a array = NumpyArray 'a | TorchTensor 'a | OtherObject 'a

datatype lib = Numpy | Torch

datatype 'a returned = Call lib string "'a array list" | PyNone

definition UNKNOWN_ARRAY_TYPE :: string where
  "UNKNOWN_ARRAY_TYPE = ''unknown array type, only numpy arrays and torch tensors are supported''"

fun isinstance_TorchTensor :: "'a array \<Rightarrow> bool" where
  "isinstance_TorchTensor (TorchTensor x) = True"
| "isinstance_TorchTensor _ = False"

fun isinstance_ndarray :: "'a array \<Rightarrow> bool" where
  "isinstance_ndarray (NumpyArray x) = True"
| "isinstance_ndarray _ = False"

text \<open>\<^verbatim>\<open>_check_all_torch_tensor\<close> and \<^verbatim>\<open>_check_all_np_ndarray\<close>: the first array of another
  class raises \<open>TypeError\<close>.\<close>

fun check_all_torch_tensor :: "'a array list \<Rightarrow> exn option" where
  "check_all_torch_tensor [] = None"
| "check_all_torch_tensor (a # as) =
     (if \<not> isinstance_TorchTensor a
      then Some (TypeError ''expected argument to be a torch.Tensor'')
      else check_all_torch_tensor as)"

fun check_all_np_ndarray :: "'a array list \<Rightarrow> exn option" where
  "check_all_np_ndarray [] = None"
| "check_all_np_ndarray (a # as) =
     (if \<not> isinstance_ndarray a
      then Some (TypeError ''expected argument to be a np.ndarray'')
      else check_all_np_ndarray as)"

text \<open>The dispatchers of \<^verbatim>\<open>metatensor/operations/_dispatch.py\<close>, branch by branch.\<close>

definition dispatch_all :: "'a array \<Rightarrow> int option \<Rightarrow> exn + 'a returned" where
  "dispatch_all a axis =
     (if isinstance_TorchTensor a then
        (if axis = None then Inr (Call Torch ''all'' [a]) else Inr (Call Torch ''all'' [a]))
      else if isinstance_ndarray a then Inr (Call Numpy ''all'' [a])
      else Inl (TypeError UNKNOWN_ARRAY_TYPE))"

definition dispatch_allclose :: "'a array \<Rightarrow> 'a array \<Rightarrow> exn + 'a returned" where
  "dispatch_allclose a b =
     (if isinstance_TorchTensor a then
        (case check_all_torch_tensor [b] of
           Some e \<Rightarrow> Inl e
         | None \<Rightarrow> Inr (Call Torch ''allclose'' [a, b]))
      else if isinstance_ndarray a then
        (case check_all_np_ndarray [b] of
           Some e \<Rightarrow> Inl e
         | None \<Rightarrow> Inr (Call Numpy ''allclose'' [a, b]))
      else Inl (TypeError UNKNOWN_ARRAY_TYPE))"

definition dispatch_copy :: "'a array \<Rightarrow> exn + 'a returned" where
  "dispatch_copy a =
     (if isinstance_TorchTensor a then Inr (Call Torch ''clone'' [a])
      else if isinstance_ndarray a then Inr (Call Numpy ''copy'' [a])
      else Inl (TypeError UNKNOWN_ARRAY_TYPE))"

text \<open>\<^verbatim>\<open>norm\<close> of the metatensor module: the torch branch calls \<^verbatim>\<open>np.linalg.norm\<close> and the
  numpy branch calls \<^verbatim>\<open>torch.linalg.norm\<close>, as the source has it.\<close>

definition norm_metatensor :: "'a array \<Rightarrow> int option \<Rightarrow> exn + 'a returned" where
  "norm_metatensor a axis =
     (if isinstance_TorchTensor a then Inr (Call Numpy ''linalg.norm'' [a])
      else if isinstance_ndarray a then Inr (Call Torch ''linalg.norm'' [a])
      else Inl (TypeError UNKNOWN_ARRAY_TYPE))"

text \<open>\<^verbatim>\<open>norm\<close> of \<^verbatim>\<open>src/equistore/operations/_dispatch.py\<close>.\<close>

definition norm_equistore :: "'a array \<Rightarrow> int option \<Rightarrow> exn + 'a returned" where
  "norm_equistore a axis =
     (if isinstance_ndarray a then Inr (Call Numpy ''linalg.norm'' [a])
      else if isinstance_TorchTensor a then Inr (Call Torch ''linalg.norm'' [a])
      else Inl (TypeError UNKNOWN_ARRAY_TYPE))"

definition dispatch_sqrt :: "'a array \<Rightarrow> exn + 'a returned" where
  "dispatch_sqrt a =
     (if isinstance_TorchTensor a then Inr (Call Torch ''sqrt'' [a])
      else if isinstance_ndarray a then Inr (Call Numpy ''sqrt'' [a])
      else Inl (TypeError UNKNOWN_ARRAY_TYPE))"

text \<open>\<^verbatim>\<open>concatenate\<close> reads \<^verbatim>\<open>arrays[0]\<close>: an empty list raises \<open>IndexError\<close>.\<close>

definition dispatch_concatenate :: "'a array list \<Rightarrow> int \<Rightarrow> exn + 'a returned" where
  "dispatch_concatenate arrays axis =
     (case arrays of
        [] \<Rightarrow> Inl (IndexError ''list index out of range'')
      | a0 # _ \<Rightarrow>
         (if isinstance_TorchTensor a0 then
            (case check_all_torch_tensor arrays of
               Some e \<Rightarrow> Inl e
             | None \<Rightarrow> Inr (Call Torch ''concatenate'' arrays))
          else if isinstance_ndarray a0 then
            (case check_all_np_ndarray arrays of
               Some e \<Rightarrow> Inl e
             | None \<Rightarrow> Inr (Call Numpy ''concatenate'' arrays))
          else Inl (TypeError UNKNOWN_ARRAY_TYPE)))"

definition dispatch_abs :: "'a array \<Rightarrow> exn + 'a returned" where
  "dispatch_abs a =
     (if isinstance_TorchTensor a then Inr (Call Torch ''abs'' [a])
      else if isinstance_ndarray a then Inr (Call Numpy ''abs'' [a])
      else Inl (TypeError UNKNOWN_ARRAY_TYPE))"

definition dispatch_sign :: "'a array \<Rightarrow> exn + 'a returned" where
  "dispatch_sign a =
     (if isinstance_TorchTensor a then Inr (Call Torch ''sign'' [a])
      else if isinstance_ndarray a then Inr (Call Numpy ''sign'' [a])
      else Inl (TypeError UNKNOWN_ARRAY_TYPE))"

text \<open>\<^verbatim>\<open>unique\<close> has no \<^verbatim>\<open>else\<close> branch: the function body ends, and Python returns
  \<^verbatim>\<open>None\<close>.\<close>

definition dispatch_unique :: "'a array \<Rightarrow> int option \<Rightarrow> exn + 'a returned" where
  "dispatch_unique a axis =
     (if isinstance_TorchTensor a then Inr (Call Torch ''unique'' [a])
      else if isinstance_ndarray a then Inr (Call Numpy ''unique'' [a])
      else Inr PyNone)"

definition dispatch_unique_with_inverse :: "'a array \<Rightarrow> int option \<Rightarrow> exn + 'a returned" where
  "dispatch_unique_with_inverse a axis =
     (if isinstance_TorchTensor a then Inr (Call Torch ''unique'' [a])
      else if isinstance_ndarray a then Inr (Call Numpy ''unique'' [a])
      else Inl (TypeError UNKNOWN_ARRAY_TYPE))"

definition dispatch_where :: "'a array \<Rightarrow> exn + 'a returned" where
  "dispatch_where a =
     (if isinstance_TorchTensor a then Inr (Call Torch ''where'' [a])
      else if isinstance_ndarray a then Inr (Call Numpy ''where'' [a])
      else Inl (TypeError UNKNOWN_ARRAY_TYPE))"

section \<open>Data model: Labels, arrays, TensorBlock, TensorMap\<close>

text \<open>
  \<open>Labels\<close>: the dimension names and the rows of integers (\<^verbatim>\<open>Labels(names, values)\<close>).
\<close>

datatype Labels = Labels (names: "string list") (entries: "int list list")

text \<open>
  A dense array of rank at least one: the rows along axis 0, each one the row-major
  flattening of a sub-array of shape \<open>tail_shape\<close>.  So \<^verbatim>\<open>a.shape\<close> is the number of rows
  followed by \<open>tail_shape\<close>, and \<^verbatim>\<open>a[i]\<close> is row \<open>i\<close>.
\<close>

datatype 'v ndarray = NDArray (tail_shape: "nat list") (rows: "'v list list")

definition shape :: "'v ndarray \<Rightarrow> nat list" where
  "shape a = length (rows a) # tail_shape a"

text \<open>
  \<open>TensorBlock\<close>: values, samples, components, properties, and the gradients in the order
  they were added, each under its parameter.  \<open>TensorMap\<close>: the keys and the blocks, block
  \<open>i\<close> stored under key row \<open>i\<close>.
\<close>

datatype 'v TensorBlock =
  TensorBlock
    (block_values: "'v ndarray")
    (samples: Labels)
    (components: "Labels list")
    (properties: Labels)
    (gradients: "(string \<times> 'v TensorBlock) list")

datatype 'v TensorMap = TensorMap (keys: Labels) (blocks: "'v TensorBlock list")

text \<open>\<^verbatim>\<open>block.gradients_list()\<close>: the parameters; \<^verbatim>\<open>block.gradient(parameter)\<close> raises
  when the block has no such gradient.\<close>

definition gradients_list :: "'v TensorBlock \<Rightarrow> string list" where
  "gradients_list b = map fst (gradients b)"

definition gradient :: "'v TensorBlock \<Rightarrow> string \<Rightarrow> exn + 'v TensorBlock" where
  "gradient b parameter =
     (case map_of (gradients b) parameter of
        None \<Rightarrow> Inl (ValueError (''can not find gradients with respect to '' @ parameter))
      | Some g \<Rightarrow> Inr g)"

text \<open>
  What the constructors validate (specification, section 4.2): the shape of the values is
  the number of samples, then the size of each component, then the number of properties.
  A gradient has the components and properties of its parent, no gradients of its own,
  and a first sample column, named \<open>sample\<close>, that indexes the parent's samples.
  In a map, the blocks are as many as the key rows, no two key rows are equal, and the
  names of the properties and of the components are those of the first block.
\<close>

definition array_ok :: "'v ndarray \<Rightarrow> bool" where
  "array_ok a = list_all (\<lambda>r. length r = prod_list (tail_shape a)) (rows a)"

definition shape_ok :: "'v TensorBlock \<Rightarrow> bool" where
  "shape_ok b =
     (array_ok (block_values b)
      \<and> shape (block_values b) =
          length (entries (samples b))
            # map (\<lambda>c. length (entries c)) (components b) @ [length (entries (properties b))])"

definition gradient_ok :: "'v TensorBlock \<Rightarrow> 'v TensorBlock \<Rightarrow> bool" where
  "gradient_ok parent g =
     (shape_ok g
      \<and> components g = components parent
      \<and> properties g = properties parent
      \<and> gradients g = []
      \<and> take 1 (names (samples g)) = [''sample'']
      \<and> list_all (\<lambda>r. r \<noteq> [] \<and> 0 \<le> hd r \<and> nat (hd r) < length (entries (samples parent)))
           (entries (samples g)))"

definition block_ok :: "'v TensorBlock \<Rightarrow> bool" where
  "block_ok b =
     (shape_ok b
      \<and> distinct (gradients_list b)
      \<and> list_all (\<lambda>pg. gradient_ok b (snd pg)) (gradients b))"

definition block_names :: "'v TensorBlock \<Rightarrow> string list \<times> string list list" where
  "block_names b = (names (properties b), map names (components b))"

definition same_names :: "'v TensorBlock list \<Rightarrow> bool" where
  "same_names bs = list_all (\<lambda>s. s = hd (map block_names bs)) (map block_names bs)"

definition tensor_ok :: "'v TensorMap \<Rightarrow> bool" where
  "tensor_ok t =
     (length (blocks t) = length (entries (keys t))
      \<and> distinct (entries (keys t))
      \<and> list_all block_ok (blocks t)
      \<and> same_names (blocks t))"

section \<open>Selecting blocks of a TensorMap\<close>

text \<open>
  Modelled from the spec: \<^verbatim>\<open>TensorMap.block\<close> and \<^verbatim>\<open>TensorMap.blocks\<close> belong to the core
  package, which is not among the sources; only their tests are.  Section 4.3: a selector is
  an index, a key row, or a set of named key-column constraints; no selector at all matches
  every block.  \<open>block\<close> fails with \<open>TooManyArgumentsError\<close> for more than one positional
  selector, with \<open>NoMatchError\<close> when no block qualifies and with \<open>AmbiguousMatchError\<close>
  when several do; \<open>blocks\<close> returns every matching block.  The messages are those the tests
  expect.
\<close>

datatype selector = ByIndex int | ByKey "int list"

fun str_nat :: "nat \<Rightarrow> string" where
  "str_nat n =
     (if n < 10 then [''0123456789'' ! n]
      else str_nat (n div 10) @ [''0123456789'' ! (n mod 10)])"

definition str_int :: "int \<Rightarrow> string" where
  "str_int i = (if i < 0 then ''-'' @ str_nat (nat (- i)) else str_nat (nat i))"

fun join :: "string \<Rightarrow> string list \<Rightarrow> string" where
  "join sep [] = []"
| "join sep [x] = x"
| "join sep (x # y # ys) = x @ sep @ join sep (y # ys)"

text \<open>How Python prints a key row: \<^verbatim>\<open>(0,)\<close> for one column, \<^verbatim>\<open>(2, 3)\<close> for more.\<close>

definition str_key :: "int list \<Rightarrow> string" where
  "str_key row =
     (case row of
        [x] \<Rightarrow> ''('' @ str_int x @ '',)''
      | _ \<Rightarrow> ''('' @ join '', '' (map str_int row) @ '')'')"

definition str_selection :: "(string \<times> int) list \<Rightarrow> string" where
  "str_selection kwargs = join '', '' (map (\<lambda>(n, v). n @ '' = '' @ str_int v) kwargs)"

text \<open>A key row satisfies a named constraint when the keys have that column and the row
  holds the value there.\<close>

definition row_matches :: "string list \<Rightarrow> (string \<times> int) list \<Rightarrow> int list \<Rightarrow> bool" where
  "row_matches nms kwargs row =
     list_all (\<lambda>(n, v). (n, v) \<in> set (zip nms row)) kwargs"

fun selector_matches :: "selector \<Rightarrow> nat \<Rightarrow> int list \<Rightarrow> bool" where
  "selector_matches (ByIndex i) pos row = (i = int pos)"
| "selector_matches (ByKey k) pos row = (row = k)"

definition blocks_matching ::
  "'v TensorMap \<Rightarrow> selector list \<Rightarrow> (string \<times> int) list \<Rightarrow> exn + nat list" where
  "blocks_matching t args kwargs =
     (if length args > 1 then
        Inl (TooManyArgumentsError
          (''only one non-keyword argument is supported, '' @ str_nat (length args)
             @ '' are given''))
      else
        Inr (filter
          (\<lambda>i. list_all (\<lambda>s. selector_matches s i (entries (keys t) ! i)) args
                \<and> row_matches (names (keys t)) kwargs (entries (keys t) ! i))
          [0 ..< min (length (entries (keys t))) (length (blocks t))]))"

definition block ::
  "'v TensorMap \<Rightarrow> selector list \<Rightarrow> (string \<times> int) list \<Rightarrow> exn + 'v TensorBlock" where
  "block t args kwargs =
     (case blocks_matching t args kwargs of
        Inl e \<Rightarrow> Inl e
      | Inr [] \<Rightarrow>
          Inl (NoMatchError
            (''Couldn't find any block matching the selection '' @ [CHR 0x27]
               @ str_selection kwargs @ [CHR 0x27]))
      | Inr [i] \<Rightarrow> Inr (blocks t ! i)
      | Inr (i # j # _) \<Rightarrow>
          Inl (AmbiguousMatchError
            (''more than one block matched '' @ [CHR 0x27] @ str_selection kwargs @ [CHR 0x27]
               @ '', use `TensorMap.blocks` if you want to get all of them'')))"

definition blocks_sel ::
  "'v TensorMap \<Rightarrow> selector list \<Rightarrow> (string \<times> int) list \<Rightarrow> exn + 'v TensorBlock list" where
  "blocks_sel t args kwargs =
     (case blocks_matching t args kwargs of
        Inl e \<Rightarrow> Inl e
      | Inr is \<Rightarrow> Inr (map (\<lambda>i. blocks t ! i) is))"

section \<open>The tensor of the tests\<close>

text \<open>
  The fixture \<^verbatim>\<open>utils.tensor()\<close> of \<^verbatim>\<open>tests/tensor.py\<close>, as the assertions of that file
  determine it: four blocks under the keys \<open>(0,0), (1,0), (2,2), (2,3)\<close>, filled with
  \<open>1.0\<close> to \<open>4.0\<close> (\<^verbatim>\<open>test_iter\<close>), each with one gradient \<open>g\<close> filled with \<open>11.0\<close> to
  \<open>14.0\<close>.  \<open>full\<close> is \<^verbatim>\<open>np.full(shape, value)\<close>.
\<close>

definition full :: "nat list \<Rightarrow> 'v \<Rightarrow> 'v ndarray" where
  "full shp v = NDArray (tl shp) (replicate (hd shp) (replicate (prod_list (tl shp)) v))"

definition tblock_1 :: "real TensorBlock" where
  "tblock_1 =
     TensorBlock (full [3, 1, 1] 1)
       (Labels [''s''] [[0], [2], [4]])
       [Labels [''c''] [[0]]]
       (Labels [''p''] [[0]])
       [(''g'', TensorBlock (full [2, 1, 1] 11)
                 (Labels [''sample'', ''g''] [[0, -2], [2, 3]])
                 [Labels [''c''] [[0]]]
                 (Labels [''p''] [[0]]) [])]"

definition tblock_2 :: "real TensorBlock" where
  "tblock_2 =
     TensorBlock (full [3, 1, 3] 2)
       (Labels [''s''] [[0], [1], [3]])
       [Labels [''c''] [[0]]]
       (Labels [''p''] [[3], [4], [5]])
       [(''g'', TensorBlock (full [3, 1, 3] 12)
                 (Labels [''sample'', ''g''] [[0, -2], [0, 3], [2, -2]])
                 [Labels [''c''] [[0]]]
                 (Labels [''p''] [[3], [4], [5]]) [])]"

definition tblock_3 :: "real TensorBlock" where
  "tblock_3 =
     TensorBlock (full [4, 3, 1] 3)
       (Labels [''s''] [[0], [3], [6], [8]])
       [Labels [''c''] [[0], [1], [2]]]
       (Labels [''p''] [[0]])
       [(''g'', TensorBlock (full [1, 3, 1] 13)
                 (Labels [''sample'', ''g''] [[1, -2]])
                 [Labels [''c''] [[0], [1], [2]]]
                 (Labels [''p''] [[0]]) [])]"

definition tblock_4 :: "real TensorBlock" where
  "tblock_4 =
     TensorBlock (full [4, 3, 1] 4)
       (Labels [''s''] [[0], [1], [2], [5]])
       [Labels [''c''] [[0], [1], [2]]]
       (Labels [''p''] [[0]])
       [(''g'', TensorBlock (full [2, 3, 1] 14)
                 (Labels [''sample'', ''g''] [[0, 1], [3, 3]])
                 [Labels [''c''] [[0], [1], [2]]]
                 (Labels [''p''] [[0]]) [])]"

definition tensor :: "real TensorMap" where
  "tensor =
     TensorMap (Labels [''key_1'', ''key_2''] [[0, 0], [1, 0], [2, 2], [2, 3]])
       [tblock_1, tblock_2, tblock_3, tblock_4]"

section \<open>Comparing TensorMaps (\<^verbatim>\<open>allclose.py\<close>)\<close>

text \<open>
  An IEEE double: not-a-number, an infinity, or a finite value (taken as a real number).
\<close>

datatype float = NaN | PosInf | NegInf | Finite real

text \<open>
  \<^verbatim>\<open>np.isclose\<close> on one pair of elements, after numpy's documentation (torch's is the same):
  two finite values are close when \<open>|a - b| \<le> atol + rtol * |b|\<close>; an infinity is close to
  the same infinity only; a NaN is close to a NaN only, and only with \<open>equal_nan\<close>.
\<close>

fun isclose :: "real \<Rightarrow> real \<Rightarrow> bool \<Rightarrow> float \<Rightarrow> float \<Rightarrow> bool" where
  "isclose rtol atol equal_nan (Finite a) (Finite b) = (\<bar>a - b\<bar> \<le> atol + rtol * \<bar>b\<bar>)"
| "isclose rtol atol equal_nan NaN NaN = equal_nan"
| "isclose rtol atol equal_nan PosInf PosInf = True"
| "isclose rtol atol equal_nan NegInf NegInf = True"
| "isclose rtol atol equal_nan _ _ = False"

text \<open>
  \<^verbatim>\<open>_dispatch.allclose\<close> on two arrays of a supported class is \<^verbatim>\<open>np.allclose\<close> (or
  \<^verbatim>\<open>torch.allclose\<close>): every pair of elements is close.  The model compares arrays
  of one shape; for two shapes that differ numpy broadcasts or raises, and the model raises.
\<close>

definition np_allclose ::
  "float ndarray \<Rightarrow> float ndarray \<Rightarrow> real \<Rightarrow> real \<Rightarrow> bool \<Rightarrow> exn + bool" where
  "np_allclose a b rtol atol equal_nan =
     (if shape a \<noteq> shape b \<or> map length (rows a) \<noteq> map length (rows b) then
        Inl (ValueError ''operands could not be broadcast together'')
      else
        Inr (list_all (\<lambda>(r, s). list_all (\<lambda>(x, y). isclose rtol atol equal_nan x y) (zip r s))
               (zip (rows a) (rows b))))"

text \<open>
  Modelled from the spec: \<^verbatim>\<open>_check_same_keys\<close>, \<^verbatim>\<open>_check_blocks\<close> and
  \<^verbatim>\<open>_check_same_gradients\<close> are imported from \<^verbatim>\<open>_utils\<close>, which is not among the sources.
  Section 4.5: the two maps must have the same key set, in any order; two blocks must have
  identical samples, components and properties (\<open>props\<close> lists the axes to compare, in
  order); gradients must be present under the same parameters on both sides, each pair
  with the same labels on the axes of \<open>props\<close>.  Each helper raises what its call site in
  \<^verbatim>\<open>allclose.py\<close> handles: \<^verbatim>\<open>_check_same_keys\<close> a \<open>NotEqualError\<close> (the handler of
  \<^verbatim>\<open>allclose_raise\<close>), \<^verbatim>\<open>_check_blocks\<close> a \<open>ValueError\<close> (the handler of
  \<^verbatim>\<open>allclose_block_raise\<close>), and \<^verbatim>\<open>_check_same_gradients\<close>, which has no handler, the
  comparison error \<open>NotEqualError\<close> of section 4.5.
\<close>

definition check_same_keys :: "'v TensorMap \<Rightarrow> 'v TensorMap \<Rightarrow> string \<Rightarrow> exn option" where
  "check_same_keys a b fname =
     (if names (keys a) \<noteq> names (keys b) then
        Some (NotEqualError (''inputs to '' @ fname @ '' should have the same keys names''))
      else if length (entries (keys a)) \<noteq> length (entries (keys b)) then
        Some (NotEqualError (''inputs to '' @ fname @ '' should have the same number of blocks''))
      else if set (entries (keys a)) \<noteq> set (entries (keys b)) then
        Some (NotEqualError (''inputs to '' @ fname @ '' should have the same keys''))
      else None)"

definition labels_differ :: "string \<Rightarrow> string \<Rightarrow> Labels \<Rightarrow> Labels \<Rightarrow> string option" where
  "labels_differ fname prop x y =
     (if length (entries x) \<noteq> length (entries y) then
        Some (''inputs to '' @ [CHR 0x27] @ fname @ [CHR 0x27] @ '' should have the same ''
              @ prop @ '':'' @ [CHR 0x0A] @ prop @ '' of the two `TensorBlock` have different lengths'')
      else if names x \<noteq> names y then
        Some (''inputs to '' @ [CHR 0x27] @ fname @ [CHR 0x27] @ '' should have the same ''
              @ prop @ '':'' @ [CHR 0x0A] @ prop @ '' names are not the same or not in the same order'')
      else if entries x \<noteq> entries y then
        Some (''inputs to '' @ [CHR 0x27] @ fname @ [CHR 0x27] @ '' should have the same ''
              @ prop @ '':'' @ [CHR 0x0A] @ prop @ '' are not the same or not in the same order'')
      else None)"

fun components_differ :: "string \<Rightarrow> Labels list \<Rightarrow> Labels list \<Rightarrow> string option" where
  "components_differ fname [] [] = None"
| "components_differ fname (c # cs) (d # ds) =
     (case labels_differ fname ''components'' c d of
        Some m \<Rightarrow> Some m
      | None \<Rightarrow> components_differ fname cs ds)"
| "components_differ fname _ _ =
     Some (''inputs to '' @ [CHR 0x27] @ fname @ [CHR 0x27]
           @ '' should have the same components: different number of components'')"

fun blocks_differ ::
  "'v TensorBlock \<Rightarrow> 'v TensorBlock \<Rightarrow> string list \<Rightarrow> string \<Rightarrow> string option" where
  "blocks_differ a b [] fname = None"
| "blocks_differ a b (prop # props) fname =
     (case (if prop = ''samples'' then labels_differ fname prop (samples a) (samples b)
            else if prop = ''properties'' then labels_differ fname prop (properties a) (properties b)
            else if prop = ''components'' then components_differ fname (components a) (components b)
            else Some (''unknown property: '' @ prop)) of
        Some m \<Rightarrow> Some m
      | None \<Rightarrow> blocks_differ a b props fname)"

definition check_blocks ::
  "'v TensorBlock \<Rightarrow> 'v TensorBlock \<Rightarrow> string list \<Rightarrow> string \<Rightarrow> exn option" where
  "check_blocks a b props fname = map_option ValueError (blocks_differ a b props fname)"

fun gradients_differ ::
  "(string \<times> 'v TensorBlock) list \<Rightarrow> 'v TensorBlock \<Rightarrow> string list \<Rightarrow> string \<Rightarrow> string option"
  where
  "gradients_differ [] b props fname = None"
| "gradients_differ ((parameter, g1) # gs) b props fname =
     (case map_of (gradients b) parameter of
        None \<Rightarrow>
          Some (''inputs to '' @ fname @ '' should have the same gradient parameters'')
      | Some g2 \<Rightarrow>
         (case blocks_differ g1 g2 props (fname @ '' (gradient '' @ parameter @ '')'') of
            Some m \<Rightarrow> Some m
          | None \<Rightarrow> gradients_differ gs b props fname))"

definition same_gradients_differ ::
  "'v TensorBlock \<Rightarrow> 'v TensorBlock \<Rightarrow> string list \<Rightarrow> string \<Rightarrow> string option" where
  "same_gradients_differ a b props fname =
     (if set (gradients_list a) \<noteq> set (gradients_list b)
         \<or> length (gradients_list a) \<noteq> length (gradients_list b) then
        Some (''inputs to '' @ fname @ '' should have the same gradient parameters'')
      else gradients_differ (gradients a) b props fname)"

definition check_same_gradients ::
  "'v TensorBlock \<Rightarrow> 'v TensorBlock \<Rightarrow> string list \<Rightarrow> string \<Rightarrow> exn option" where
  "check_same_gradients a b props fname =
     map_option NotEqualError (same_gradients_differ a b props fname)"

text \<open>
  \<^verbatim>\<open>allclose_block_raise\<close>, statement by statement: the shapes of the values, the values,
  the labels (a \<open>ValueError\<close> of \<^verbatim>\<open>_check_blocks\<close> is raised again as a \<open>NotEqualError\<close>
  with the same message), the gradients' labels, then the values of each gradient.
\<close>

fun allclose_gradients ::
  "(string \<times> float TensorBlock) list \<Rightarrow> float TensorBlock \<Rightarrow> real \<Rightarrow> real \<Rightarrow> bool
     \<Rightarrow> exn + unit" where
  "allclose_gradients [] block_2 rtol atol equal_nan = Inr ()"
| "allclose_gradients ((parameter, gradient1) # gs) block_2 rtol atol equal_nan =
     (case gradient block_2 parameter of
        Inl e \<Rightarrow> Inl e
      | Inr gradient2 \<Rightarrow>
         (case np_allclose (block_values gradient1) (block_values gradient2) rtol atol equal_nan of
            Inl e \<Rightarrow> Inl e
          | Inr False \<Rightarrow>
              Inl (NotEqualError (''gradient '' @ [CHR 0x27] @ parameter @ [CHR 0x27]
                                  @ '' values are not allclose''))
          | Inr True \<Rightarrow> allclose_gradients gs block_2 rtol atol equal_nan))"

definition allclose_block_raise ::
  "float TensorBlock \<Rightarrow> float TensorBlock \<Rightarrow> real \<Rightarrow> real \<Rightarrow> bool \<Rightarrow> exn + unit" where
  "allclose_block_raise block_1 block_2 rtol atol equal_nan =
     (if \<not> (shape (block_values block_1) = shape (block_values block_2)) then
        Inl (NotEqualError ''values shapes are different'')
      else
        case np_allclose (block_values block_1) (block_values block_2) rtol atol equal_nan of
          Inl e \<Rightarrow> Inl e
        | Inr False \<Rightarrow> Inl (NotEqualError ''values are not allclose'')
        | Inr True \<Rightarrow>
           (case check_blocks block_1 block_2 [''samples'', ''properties'', ''components'']
                   ''allclose'' of
              Some (ValueError m) \<Rightarrow> Inl (NotEqualError m)
            | Some e \<Rightarrow> Inl e
            | None \<Rightarrow>
               (case check_same_gradients block_1 block_2
                       [''samples'', ''properties'', ''components''] ''allclose'' of
                  Some e \<Rightarrow> Inl e
                | None \<Rightarrow> allclose_gradients (gradients block_1) block_2 rtol atol equal_nan)))"

definition allclose_block ::
  "float TensorBlock \<Rightarrow> float TensorBlock \<Rightarrow> real \<Rightarrow> real \<Rightarrow> bool \<Rightarrow> exn + bool" where
  "allclose_block block_1 block_2 rtol atol equal_nan =
     (case allclose_block_raise block_1 block_2 rtol atol equal_nan of
        Inr u \<Rightarrow> Inr True
      | Inl (NotEqualError m) \<Rightarrow> Inr False
      | Inl e \<Rightarrow> Inl e)"

text \<open>
  \<^verbatim>\<open>allclose_raise\<close>: the keys first; then, for each key and block of \<open>tensor_1\<close> in key
  order, the block of \<open>tensor_2\<close> under that key is compared, and a \<open>NotEqualError\<close> from
  the comparison is raised again under the message that names the key.
\<close>

fun allclose_items ::
  "(int list \<times> float TensorBlock) list \<Rightarrow> float TensorMap \<Rightarrow> real \<Rightarrow> real \<Rightarrow> bool
     \<Rightarrow> exn + unit" where
  "allclose_items [] tensor_2 rtol atol equal_nan = Inr ()"
| "allclose_items ((key, block_1) # rest) tensor_2 rtol atol equal_nan =
     (case (case block tensor_2 [ByKey key] [] of
              Inl e \<Rightarrow> Inl e
            | Inr block_2 \<Rightarrow> allclose_block_raise block_1 block_2 rtol atol equal_nan) of
        Inl (NotEqualError m) \<Rightarrow>
          Inl (NotEqualError (''blocks for key '' @ [CHR 0x27] @ str_key key @ [CHR 0x27]
                              @ '' are different''))
      | Inl e \<Rightarrow> Inl e
      | Inr u \<Rightarrow> allclose_items rest tensor_2 rtol atol equal_nan)"

definition items :: "'v TensorMap \<Rightarrow> (int list \<times> 'v TensorBlock) list" where
  "items t = zip (entries (keys t)) (blocks t)"

definition allclose_raise ::
  "float TensorMap \<Rightarrow> float TensorMap \<Rightarrow> real \<Rightarrow> real \<Rightarrow> bool \<Rightarrow> exn + unit" where
  "allclose_raise tensor_1 tensor_2 rtol atol equal_nan =
     (case check_same_keys tensor_1 tensor_2 ''allclose'' of
        Some (NotEqualError m) \<Rightarrow> Inl (NotEqualError ''the tensor maps have different keys'')
      | Some e \<Rightarrow> Inl e
      | None \<Rightarrow> allclose_items (items tensor_1) tensor_2 rtol atol equal_nan)"

definition allclose ::
  "float TensorMap \<Rightarrow> float TensorMap \<Rightarrow> real \<Rightarrow> real \<Rightarrow> bool \<Rightarrow> exn + bool" where
  "allclose tensor_1 tensor_2 rtol atol equal_nan =
     (case allclose_raise tensor_1 tensor_2 rtol atol equal_nan of
        Inr u \<Rightarrow> Inr True
      | Inl (NotEqualError m) \<Rightarrow> Inr False
      | Inl e \<Rightarrow> Inl e)"

text \<open>The default tolerances of the four functions.\<close>

definition default_rtol :: real where "default_rtol = 1 / 10 ^ 13"
definition default_atol :: real where "default_atol = 1 / 10 ^ 12"

text \<open>No element of the array, of the block (its values and the values of its gradients)
  or of the map is a NaN.\<close>

definition no_nan_array :: "float ndarray \<Rightarrow> bool" where
  "no_nan_array a = list_all (list_all (\<lambda>x. x \<noteq> NaN)) (rows a)"

definition no_nan_block :: "float TensorBlock \<Rightarrow> bool" where
  "no_nan_block b =
     (no_nan_array (block_values b)
      \<and> list_all (\<lambda>pg. no_nan_array (block_values (snd pg))) (gradients b))"

definition no_nan :: "float TensorMap \<Rightarrow> bool" where
  "no_nan t = list_all no_nan_block (blocks t)"

text \<open>The message under which \<^verbatim>\<open>allclose_raise\<close> raises a block's error again.\<close>

definition key_message :: "int list \<Rightarrow> string" where
  "key_message key = ''blocks for key '' @ [CHR 0x27] @ str_key key @ [CHR 0x27] @ '' are different''"

text \<open>
  The blocks and maps of the docstrings of \<^verbatim>\<open>allclose.py\<close>: two samples, no components,
  three properties, one block under the key \<open>(0,)\<close>; the values \<open>[[1, 2, 4], [3, 5, 6]]\<close>,
  the same with \<open>1 + 1e-5\<close> for the first, and the same with a NaN for the last.
\<close>

definition example_block :: "float list list \<Rightarrow> string \<Rightarrow> float TensorBlock" where
  "example_block vals property_name =
     TensorBlock (NDArray [3] vals)
       (Labels [''structure'', ''center''] [[0, 0], [0, 1]])
       []
       (Labels [property_name] [[0], [1], [2]])
       []"

definition example_tensor :: "string \<Rightarrow> float list list \<Rightarrow> float TensorMap" where
  "example_tensor key_name vals =
     TensorMap (Labels [key_name] [[0]]) [example_block vals ''properties'']"

definition values_1 :: "float list list" where
  "values_1 = [[Finite 1, Finite 2, Finite 4], [Finite 3, Finite 5, Finite 6]]"

definition values_3 :: "float list list" where
  "values_3 = [[Finite (1 + 1 / 10 ^ 5), Finite 2, Finite 4], [Finite 3, Finite 5, Finite 6]]"

definition values_nan :: "float list list" where
  "values_nan = [[Finite 1, Finite 2, Finite 4], [Finite 3, Finite 5, NaN]]"

text \<open>
  The comparison as the specification words it (section 4.5), to be compared with
  \<^verbatim>\<open>allclose_block_raise\<close>.  Two arrays are close when they have one shape and every pair
  of elements is close within \<open>(rtol, atol)\<close>, a NaN being close to a NaN only with
  \<open>equal_nan\<close>.  Two blocks are close when their values are close, their samples,
  components and properties are identical in content and order, they have gradients under
  the same parameters, and each gradient of the first is close, in the same way, to the
  gradient of the second under its parameter.
\<close>

definition arrays_close :: "real \<Rightarrow> real \<Rightarrow> bool \<Rightarrow> float ndarray \<Rightarrow> float ndarray \<Rightarrow> bool" where
  "arrays_close rtol atol equal_nan a b =
     (shape a = shape b
      \<and> list_all2 (list_all2 (isclose rtol atol equal_nan)) (rows a) (rows b))"

definition metadata_equal :: "'v TensorBlock \<Rightarrow> 'v TensorBlock \<Rightarrow> bool" where
  "metadata_equal a b =
     (samples a = samples b \<and> components a = components b \<and> properties a = properties b)"

definition gradient_close ::
  "real \<Rightarrow> real \<Rightarrow> bool \<Rightarrow> float TensorBlock \<Rightarrow> string \<times> float TensorBlock \<Rightarrow> bool" where
  "gradient_close rtol atol equal_nan block_2 pg =
     (case map_of (gradients block_2) (fst pg) of
        None \<Rightarrow> False
      | Some gradient2 \<Rightarrow>
          metadata_equal (snd pg) gradient2
          \<and> arrays_close rtol atol equal_nan (block_values (snd pg)) (block_values gradient2))"

definition blocks_close ::
  "real \<Rightarrow> real \<Rightarrow> bool \<Rightarrow> float TensorBlock \<Rightarrow> float TensorBlock \<Rightarrow> bool" where
  "blocks_close rtol atol equal_nan block_1 block_2 =
     (arrays_close rtol atol equal_nan (block_values block_1) (block_values block_2)
      \<and> metadata_equal block_1 block_2
      \<and> set (gradients_list block_1) = set (gradients_list block_2)
      \<and> list_all (gradient_close rtol atol equal_nan block_2) (gradients block_1))"

text \<open>
  The block of the docstrings with one gradient, of the given values, and the map that
  holds it under the key \<open>(0,)\<close>.
\<close>

definition example_gradient_block :: "float list list \<Rightarrow> float TensorBlock" where
  "example_gradient_block gradient_vals =
     TensorBlock (NDArray [3] values_1)
       (Labels [''structure'', ''center''] [[0, 0], [0, 1]])
       []
       (Labels [''properties''] [[0], [1], [2]])
       [(''parameter'',
         TensorBlock (NDArray [3] gradient_vals)
           (Labels [''sample''] [[0], [1]])
           []
           (Labels [''properties''] [[0], [1], [2]])
           [])]"

definition example_gradient_tensor :: "float list list \<Rightarrow> float TensorMap" where
  "example_gradient_tensor gradient_vals =
     TensorMap (Labels [''key''] [[0]]) [example_gradient_block gradient_vals]"

section \<open>Dividing TensorMaps (\<^verbatim>\<open>divide.py\<close>)\<close>

text \<open>
  The values of the maps that \<^verbatim>\<open>divide\<close> takes are real numbers: rounding and the
  non-finite values of IEEE doubles stay outside the model.  \<open>and_then\<close> runs the next
  statement on the value of the previous one, unless that one raised.
\<close>

definition and_then :: "exn + 'a \<Rightarrow> ('a \<Rightarrow> exn + 'b) \<Rightarrow> exn + 'b" where
  "and_then x f = (case x of Inl e \<Rightarrow> Inl e | Inr v \<Rightarrow> f v)"

fun collect :: "('a \<Rightarrow> exn + 'b) \<Rightarrow> 'a list \<Rightarrow> exn + 'b list" where
  "collect f [] = Inr []"
| "collect f (x # xs) =
     and_then (f x) (\<lambda>y. and_then (collect f xs) (\<lambda>ys. Inr (y # ys)))"

text \<open>
  Modelled from the spec: the constructors of \<open>TensorBlock\<close> and \<open>TensorMap\<close> and
  \<^verbatim>\<open>add_gradient\<close> belong to the core package, which is not among the sources.  Sections
  4.2 and 4.3: the shape of the values must fit the labels; a gradient is added once per
  parameter and has the components and properties of its parent; a map has one block per
  key row, no key row twice, and the same property and component names in every block.
\<close>

definition new_TensorBlock ::
  "'v ndarray \<Rightarrow> Labels \<Rightarrow> Labels list \<Rightarrow> Labels \<Rightarrow> exn + 'v TensorBlock" where
  "new_TensorBlock v s cs p =
     (if shape v = length (entries s) # map (\<lambda>c. length (entries c)) cs @ [length (entries p)]
      then Inr (TensorBlock v s cs p [])
      else Inl (ShapeMismatchError ''the shape of the values does not match the labels''))"

definition add_gradient ::
  "'v TensorBlock \<Rightarrow> string \<Rightarrow> 'v TensorBlock \<Rightarrow> exn + 'v TensorBlock" where
  "add_gradient b parameter g =
     (if parameter \<in> set (gradients_list b) then
        Inl (DuplicateGradientError parameter)
      else if components g \<noteq> components b \<or> properties g \<noteq> properties b then
        Inl (GradientShapeMismatchError parameter)
      else
        Inr (TensorBlock (block_values b) (samples b) (components b) (properties b)
               (gradients b @ [(parameter, g)])))"

definition new_TensorMap :: "Labels \<Rightarrow> 'v TensorBlock list \<Rightarrow> exn + 'v TensorMap" where
  "new_TensorMap ks bs =
     (if \<not> distinct (entries ks) then Inl (DuplicateKeyError ''duplicate key rows'')
      else if length (entries ks) \<noteq> length bs then
        Inl (LengthMismatchError ''one block per key row is needed'')
      else if \<not> same_names bs then
        Inl (InconsistentMetadataError ''the blocks have different property or component names'')
      else Inr (TensorMap ks bs))"

text \<open>
  Modelled from the spec: the checks of \<^verbatim>\<open>_utils\<close> that \<^verbatim>\<open>divide\<close> calls (section 4.5).
  The keys of the two maps are the same set; a pair of blocks has identical samples,
  components and properties; gradients exist under the same parameters on both sides.
\<close>

definition check_same_keys_raise :: "'v TensorMap \<Rightarrow> 'v TensorMap \<Rightarrow> string \<Rightarrow> exn option" where
  "check_same_keys_raise a b fname = check_same_keys a b fname"

definition check_blocks_raise ::
  "'v TensorBlock \<Rightarrow> 'v TensorBlock \<Rightarrow> string \<Rightarrow> exn option" where
  "check_blocks_raise a b fname =
     map_option NotEqualError (blocks_differ a b [''samples'', ''components'', ''properties''] fname)"

definition check_same_gradients_raise ::
  "'v TensorBlock \<Rightarrow> 'v TensorBlock \<Rightarrow> string \<Rightarrow> exn option" where
  "check_same_gradients_raise a b fname =
     map_option NotEqualError (same_gradients_differ a b [] fname)"

text \<open>
  Array operations.  \<open>array_op f a b\<close> is an element-wise operator on two arrays of one
  shape.  \<open>row a i\<close> is the sub-array \<^verbatim>\<open>a[i]\<close> and \<open>take_rows a idx\<close> is \<^verbatim>\<open>a[idx]\<close> for an
  array of indices, both with numpy's \<open>IndexError\<close>.  An operator between a sub-array
  \<^verbatim>\<open>a[i]\<close> and a stack of rows \<^verbatim>\<open>g[idx]\<close> is broadcast over the rows.  The model covers
  rows of the sub-array's shape, which is what a gradient with the components and
  properties of its parent has; for any other pair of shapes numpy broadcasts or raises,
  and the model raises.
\<close>

datatype 'v subarray = SubArray (sub_shape: "nat list") (cells: "'v list")

definition broadcast_error :: exn where
  "broadcast_error = ValueError ''operands could not be broadcast together''"

definition array_op ::
  "('v \<Rightarrow> 'v \<Rightarrow> 'v) \<Rightarrow> 'v ndarray \<Rightarrow> 'v ndarray \<Rightarrow> exn + 'v ndarray" where
  "array_op f a b =
     (if shape a = shape b then
        Inr (NDArray (tail_shape a) (map2 (\<lambda>r s. map2 f r s) (rows a) (rows b)))
      else Inl broadcast_error)"

definition row :: "'v ndarray \<Rightarrow> nat \<Rightarrow> exn + 'v subarray" where
  "row a i =
     (if i < length (rows a) then Inr (SubArray (tail_shape a) (rows a ! i))
      else Inl (IndexError ''index is out of bounds for axis 0''))"

definition take_rows :: "'v ndarray \<Rightarrow> nat list \<Rightarrow> exn + 'v ndarray" where
  "take_rows a idx =
     (if list_all (\<lambda>j. j < length (rows a)) idx then
        Inr (NDArray (tail_shape a) (map (\<lambda>j. rows a ! j) idx))
      else Inl (IndexError ''index is out of bounds for axis 0''))"

definition sub_op_rows ::
  "('v \<Rightarrow> 'v \<Rightarrow> 'v) \<Rightarrow> 'v subarray \<Rightarrow> 'v ndarray \<Rightarrow> exn + 'v ndarray" where
  "sub_op_rows f x g =
     (if sub_shape x = tail_shape g then
        Inr (NDArray (tail_shape g) (map (\<lambda>r. map2 f (cells x) r) (rows g)))
      else Inl broadcast_error)"

definition rows_op_sub ::
  "('v \<Rightarrow> 'v \<Rightarrow> 'v) \<Rightarrow> 'v ndarray \<Rightarrow> 'v subarray \<Rightarrow> exn + 'v ndarray" where
  "rows_op_sub f g x =
     (if sub_shape x = tail_shape g then
        Inr (NDArray (tail_shape g) (map (\<lambda>r. map2 f r (cells x)) (rows g)))
      else Inl broadcast_error)"

text \<open>\<^verbatim>\<open>a += b\<close> adds in place: \<open>b\<close> must broadcast to the shape of \<open>a\<close>, so it has as many
  rows as \<open>a\<close>, or one row, which is added to every row of \<open>a\<close>.\<close>

definition iadd :: "real ndarray \<Rightarrow> real ndarray \<Rightarrow> exn + real ndarray" where
  "iadd a b =
     (if tail_shape a \<noteq> tail_shape b then Inl broadcast_error
      else if length (rows b) = length (rows a) then
        Inr (NDArray (tail_shape a) (map2 (\<lambda>r s. map2 (+) r s) (rows a) (rows b)))
      else if length (rows b) = 1 then
        Inr (NDArray (tail_shape a) (map (\<lambda>r. map2 (+) r (hd (rows b))) (rows a)))
      else Inl broadcast_error)"

text \<open>\<^verbatim>\<open>_dispatch.concatenate(arrays, axis=0)\<close> reads \<^verbatim>\<open>arrays[0]\<close>, so an empty list raises
  \<open>IndexError\<close>; the arrays must agree on every axis but the first.\<close>

definition concatenate :: "'v ndarray list \<Rightarrow> exn + 'v ndarray" where
  "concatenate arrays =
     (case arrays of
        [] \<Rightarrow> Inl (IndexError ''list index out of range'')
      | a0 # _ \<Rightarrow>
         (if list_all (\<lambda>a. tail_shape a = tail_shape a0) arrays then
            Inr (NDArray (tail_shape a0) (concat (map rows arrays)))
          else Inl (ValueError ''all the input array dimensions except for the concatenation axis must match exactly'')))"

text \<open>\<^verbatim>\<open>labels.column(name)\<close>: the values of the named column, row by row.
  \<^verbatim>\<open>_dispatch.where(column == i)[0]\<close>: the positions at which the column holds \<open>i\<close>.\<close>

fun index_of :: "'a \<Rightarrow> 'a list \<Rightarrow> nat" where
  "index_of x [] = 0"
| "index_of x (y # ys) = (if x = y then 0 else Suc (index_of x ys))"

definition column :: "Labels \<Rightarrow> string \<Rightarrow> exn + int list" where
  "column l name =
     (if name \<in> set (names l) then Inr (map (\<lambda>r. r ! index_of name (names l)) (entries l))
      else Inl (ValueError (''can not find a dimension named '' @ name)))"

definition where_equal :: "int list \<Rightarrow> nat \<Rightarrow> nat list" where
  "where_equal col i = filter (\<lambda>j. col ! j = int i) [0 ..< length col]"

text \<open>\<^verbatim>\<open>_divide_block_constant\<close>.\<close>

definition map_array :: "('v \<Rightarrow> 'v) \<Rightarrow> 'v ndarray \<Rightarrow> 'v ndarray" where
  "map_array f a = NDArray (tail_shape a) (map (map f) (rows a))"

fun divide_constant_gradients ::
  "(string \<times> real TensorBlock) list \<Rightarrow> real \<Rightarrow> real TensorBlock \<Rightarrow> exn + real TensorBlock"
  where
  "divide_constant_gradients [] constant result_block = Inr result_block"
| "divide_constant_gradients ((parameter, grad) # gs) constant result_block =
     (if length (gradients_list grad) \<noteq> 0 then
        Inl (NotImplementedError ''gradients of gradients are not supported'')
      else
        and_then (new_TensorBlock (map_array (\<lambda>x. x / constant) (block_values grad))
                    (samples grad) (components grad) (properties grad))
          (\<lambda>g. and_then (add_gradient result_block parameter g)
                  (divide_constant_gradients gs constant)))"

definition divide_block_constant :: "real TensorBlock \<Rightarrow> real \<Rightarrow> exn + real TensorBlock" where
  "divide_block_constant blk constant =
     and_then (new_TensorBlock (map_array (\<lambda>x. x / constant) (block_values blk))
                 (samples blk) (components blk) (properties blk))
       (divide_constant_gradients (gradients blk) constant)"

text \<open>
  \<^verbatim>\<open>_divide_block_block\<close>.  One turn of the inner loop, for the sample \<open>i_sample\<close>: the rows
  of the two gradients that refer to the sample, then
  \<^verbatim>\<open>-block_1.values[i] * gradient_2.values[rows_2] / block_2.values[i] ** 2\<close>, to which
  \<^verbatim>\<open>gradient_1.values[rows_1] / block_2.values[i]\<close> is added in place.
\<close>

definition value_grad ::
  "real TensorBlock \<Rightarrow> real TensorBlock \<Rightarrow> real TensorBlock \<Rightarrow> real TensorBlock \<Rightarrow> nat
     \<Rightarrow> exn + real ndarray" where
  "value_grad block_1 block_2 gradient_1 gradient_2 i_sample =
     and_then (column (samples gradient_1) ''sample'') (\<lambda>column_1.
     and_then (column (samples gradient_2) ''sample'') (\<lambda>column_2.
     and_then (row (block_values block_1) i_sample) (\<lambda>a.
     and_then (take_rows (block_values gradient_2) (where_equal column_2 i_sample)) (\<lambda>d2.
     and_then (sub_op_rows (*) (SubArray (sub_shape a) (map uminus (cells a))) d2) (\<lambda>ad.
     and_then (row (block_values block_2) i_sample) (\<lambda>b.
     and_then (rows_op_sub (/) ad (SubArray (sub_shape b) (map (\<lambda>x. x ^ 2) (cells b)))) (\<lambda>vg.
     and_then (take_rows (block_values gradient_1) (where_equal column_1 i_sample)) (\<lambda>d1.
     and_then (rows_op_sub (/) d1 b) (\<lambda>db.
     iadd vg db)))))))))"

fun divide_gradients ::
  "(string \<times> real TensorBlock) list \<Rightarrow> real TensorBlock \<Rightarrow> real TensorBlock \<Rightarrow> real TensorBlock
     \<Rightarrow> exn + real TensorBlock" where
  "divide_gradients [] block_1 block_2 result_block = Inr result_block"
| "divide_gradients ((parameter_1, gradient_1) # gs) block_1 block_2 result_block =
     and_then (gradient block_2 parameter_1) (\<lambda>gradient_2.
       if length (gradients_list gradient_1) \<noteq> 0 then
         Inl (NotImplementedError ''gradients of gradients are not supported'')
       else if length (gradients_list gradient_2) \<noteq> 0 then
         Inl (NotImplementedError ''gradients of gradients are not supported'')
       else
         and_then (collect (value_grad block_1 block_2 gradient_1 gradient_2)
                     [0 ..< length (entries (samples block_1))]) (\<lambda>values_grad.
         and_then (concatenate values_grad) (\<lambda>values_grad.
         and_then (new_TensorBlock values_grad (samples gradient_1) (components gradient_1)
                     (properties gradient_1)) (\<lambda>g.
         and_then (add_gradient result_block parameter_1 g)
           (divide_gradients gs block_1 block_2)))))"

definition divide_block_block :: "real TensorBlock \<Rightarrow> real TensorBlock \<Rightarrow> exn + real TensorBlock"
  where
  "divide_block_block block_1 block_2 =
     and_then (array_op (/) (block_values block_1) (block_values block_2)) (\<lambda>v.
     and_then (new_TensorBlock v (samples block_1) (components block_1) (properties block_1))
       (divide_gradients (gradients block_1) block_1 block_2))"

text \<open>
  \<^verbatim>\<open>divide\<close> (here \<open>divide_tensor\<close>).  The second argument is a scalar, a TensorMap, or anything else.  For a
  TensorMap the keys are checked first; then, key by key in the order of \<open>A\<close>, the block of
  \<open>B\<close> is fetched, the pair is checked and divided.
\<close>

datatype operand = Scalar real | Tensor "real TensorMap" | Neither

definition divide_pair :: "real TensorMap \<Rightarrow> int list \<times> real TensorBlock \<Rightarrow> exn + real TensorBlock"
  where
  "divide_pair B item =
     (case item of (key, block_A) \<Rightarrow>
        and_then (block B [ByKey key] []) (\<lambda>block_B.
          case check_blocks_raise block_A block_B ''divide'' of
            Some e \<Rightarrow> Inl e
          | None \<Rightarrow>
             (case check_same_gradients_raise block_A block_B ''divide'' of
                Some e \<Rightarrow> Inl e
              | None \<Rightarrow> divide_block_block block_A block_B)))"

definition divide_tensor :: "real TensorMap \<Rightarrow> operand \<Rightarrow> exn + real TensorMap" where
  "divide_tensor A B =
     (case B of
        Scalar c \<Rightarrow>
          and_then (collect (\<lambda>block_A. divide_block_constant block_A c) (blocks A))
            (new_TensorMap (keys A))
      | Tensor B' \<Rightarrow>
         (case check_same_keys_raise A B' ''divide'' of
            Some e \<Rightarrow> Inl e
          | None \<Rightarrow> and_then (collect (divide_pair B') (items A)) (new_TensorMap (keys A)))
      | Neither \<Rightarrow> Inl (TypeError ''B should be a TensorMap or a scalar value''))"

text \<open>
  The quotient rule in the specification's words, for one row of a gradient: from the
  values \<open>a\<close> and \<open>b\<close> of the parent sample and the gradient rows \<open>da\<close> and \<open>db\<close>, the row
  \<open>da / b - a * db / b\<^sup>2\<close>, element by element.
\<close>

definition quotient_rule :: "real list \<Rightarrow> real list \<Rightarrow> real list \<Rightarrow> real list \<Rightarrow> real list" where
  "quotient_rule a b da db =
     map (\<lambda>c. da ! c / b ! c - a ! c * db ! c / (b ! c) ^ 2) [0 ..< length da]"

text \<open>
  The gradient the specification asks for: the labels of \<open>A\<close>'s gradient, and in row \<open>j\<close>
  the quotient rule for the parent sample that row \<open>j\<close> refers to.  \<open>quotient_block\<close> is the
  block with these gradients, under the labels of the first block.
\<close>

definition quotient_gradient ::
  "real TensorBlock \<Rightarrow> real TensorBlock \<Rightarrow> real TensorBlock \<Rightarrow> real TensorBlock
     \<Rightarrow> real TensorBlock" where
  "quotient_gradient block_1 block_2 gradient_1 gradient_2 =
     TensorBlock
       (NDArray (tail_shape (block_values gradient_1))
          (map (\<lambda>j. quotient_rule
                      (rows (block_values block_1) ! nat (hd (entries (samples gradient_1) ! j)))
                      (rows (block_values block_2) ! nat (hd (entries (samples gradient_1) ! j)))
                      (rows (block_values gradient_1) ! j)
                      (rows (block_values gradient_2) ! j))
             [0 ..< length (entries (samples gradient_1))]))
       (samples gradient_1) (components gradient_1) (properties gradient_1) []"

definition quotient_values :: "real TensorBlock \<Rightarrow> real TensorBlock \<Rightarrow> real ndarray" where
  "quotient_values block_1 block_2 =
     NDArray (tail_shape (block_values block_1))
       (map2 (\<lambda>r s. map2 (/) r s) (rows (block_values block_1)) (rows (block_values block_2)))"

definition quotient_block :: "real TensorBlock \<Rightarrow> real TensorBlock \<Rightarrow> real TensorBlock" where
  "quotient_block block_1 block_2 =
     TensorBlock (quotient_values block_1 block_2)
       (samples block_1) (components block_1) (properties block_1)
       (map (\<lambda>pg. (fst pg, quotient_gradient block_1 block_2 (snd pg)
                            (the (map_of (gradients block_2) (fst pg)))))
          (gradients block_1))"

text \<open>
  The gradient as the loops of \<^verbatim>\<open>_divide_block_block\<close> lay it out: the labels of \<open>A\<close>'s
  gradient, and for the values, sample after sample in ascending order, the quotient rule
  for the rows that refer to that sample.
\<close>

definition grouped_rows ::
  "real TensorBlock \<Rightarrow> real TensorBlock \<Rightarrow> real TensorBlock \<Rightarrow> real TensorBlock
     \<Rightarrow> real list list" where
  "grouped_rows block_1 block_2 gradient_1 gradient_2 =
     concat (map (\<lambda>i. map (\<lambda>j. quotient_rule
                                  (rows (block_values block_1) ! i)
                                  (rows (block_values block_2) ! i)
                                  (rows (block_values gradient_1) ! j)
                                  (rows (block_values gradient_2) ! j))
                         (where_equal (map hd (entries (samples gradient_1))) i))
               [0 ..< length (entries (samples block_1))])"

definition grouped_gradient ::
  "real TensorBlock \<Rightarrow> real TensorBlock \<Rightarrow> real TensorBlock \<Rightarrow> real TensorBlock
     \<Rightarrow> real TensorBlock" where
  "grouped_gradient block_1 block_2 gradient_1 gradient_2 =
     TensorBlock
       (NDArray (tail_shape (block_values gradient_1))
          (grouped_rows block_1 block_2 gradient_1 gradient_2))
       (samples gradient_1) (components gradient_1) (properties gradient_1) []"

definition grouped_block :: "real TensorBlock \<Rightarrow> real TensorBlock \<Rightarrow> real TensorBlock" where
  "grouped_block block_1 block_2 =
     TensorBlock (quotient_values block_1 block_2)
       (samples block_1) (components block_1) (properties block_1)
       (map (\<lambda>pg. (fst pg, grouped_gradient block_1 block_2 (snd pg)
                            (the (map_of (gradients block_2) (fst pg)))))
          (gradients block_1))"

text \<open>The block of \<open>B\<close> under a key row of \<open>A\<close>.\<close>

definition the_block :: "'v TensorMap \<Rightarrow> int list \<Rightarrow> 'v TensorBlock" where
  "the_block B key = blocks B ! index_of key (entries (keys B))"

text \<open>
  What \<^verbatim>\<open>divide\<close> has checked when it divides two blocks, and what it has not: the two
  blocks have the same labels and gradients under the same parameters
  (\<open>same_metadata\<close>); the two gradients under one parameter have the same samples
  (\<open>same_gradient_samples\<close>); the rows of each gradient of the first block refer to the
  samples in ascending order (\<open>sorted_gradient_samples\<close>).
\<close>

definition same_metadata :: "'v TensorBlock \<Rightarrow> 'v TensorBlock \<Rightarrow> bool" where
  "same_metadata b1 b2 =
     (samples b1 = samples b2 \<and> components b1 = components b2 \<and> properties b1 = properties b2
      \<and> set (gradients_list b1) = set (gradients_list b2))"

definition same_gradient_samples :: "'v TensorBlock \<Rightarrow> 'v TensorBlock \<Rightarrow> bool" where
  "same_gradient_samples b1 b2 =
     list_all (\<lambda>pg. case map_of (gradients b2) (fst pg) of
                       None \<Rightarrow> False
                     | Some g2 \<Rightarrow> samples (snd pg) = samples g2)
       (gradients b1)"

definition sorted_gradient_samples :: "'v TensorBlock \<Rightarrow> bool" where
  "sorted_gradient_samples b =
     list_all (\<lambda>pg. sorted (map hd (entries (samples (snd pg))))) (gradients b)"

text \<open>
  What a call \<^verbatim>\<open>divide(A, B)\<close> on two TensorMaps needs to return: the two maps are as the
  constructors validate them and have the same keys, every block of \<open>A\<close> has at least one
  sample, and it has the labels, the gradient parameters and the gradient samples of the
  block of \<open>B\<close> under its key.
\<close>

definition divisible :: "real TensorMap \<Rightarrow> real TensorMap \<Rightarrow> bool" where
  "divisible A B =
     (tensor_ok A \<and> tensor_ok B
      \<and> names (keys A) = names (keys B)
      \<and> set (entries (keys A)) = set (entries (keys B))
      \<and> list_all (\<lambda>kb. same_metadata (snd kb) (the_block B (fst kb))
                        \<and> same_gradient_samples (snd kb) (the_block B (fst kb))
                        \<and> entries (samples (snd kb)) \<noteq> [])
           (items A))"

text \<open>Small blocks with one gradient each: two samples, one property, and two gradient
  rows that refer to the samples in the order given.  \<open>A_sorted\<close> and \<open>B_sorted\<close> list
  the gradient rows in ascending order of the sample; \<open>A_unsorted\<close> and \<open>B_unsorted\<close>
  hold the same rows in descending order.\<close>

definition grad_block :: "int list list \<Rightarrow> real list list \<Rightarrow> real TensorBlock" where
  "grad_block sample_rows vals =
     TensorBlock (NDArray [1] vals) (Labels [''sample''] sample_rows) []
       (Labels [''p''] [[0]]) []"

definition small_block :: "real list list \<Rightarrow> int list list \<Rightarrow> real list list \<Rightarrow> real TensorBlock"
  where
  "small_block vals sample_rows grad_vals =
     TensorBlock (NDArray [1] vals) (Labels [''s''] [[0], [1]]) [] (Labels [''p''] [[0]])
       [(''g'', grad_block sample_rows grad_vals)]"

definition small_tensor :: "real TensorBlock \<Rightarrow> real TensorMap" where
  "small_tensor b = TensorMap (Labels [''key''] [[0]]) [b]"

definition A_sorted :: "real TensorBlock" where
  "A_sorted = small_block [[1], [2]] [[0], [1]] [[20], [10]]"

definition B_sorted :: "real TensorBlock" where
  "B_sorted = small_block [[1], [4]] [[0], [1]] [[3], [8]]"

definition A_unsorted :: "real TensorBlock" where
  "A_unsorted = small_block [[1], [2]] [[1], [0]] [[10], [20]]"

definition B_unsorted :: "real TensorBlock" where
  "B_unsorted = small_block [[1], [4]] [[1], [0]] [[8], [3]]"

section \<open>The order of validation and numeric work\<close>

text \<open>
  To say when a function validates and when it computes, the two functions that can fail
  are written once more with a log: every check of metadata (shapes, keys, labels,
  gradient parameters) and every bulk operation on the values of arrays is recorded, in
  the order of the statements of the source, up to the statement that raises or returns.
\<close>

datatype event = Validation string | Numeric string

fun is_validation :: "event \<Rightarrow> bool" where
  "is_validation (Validation a) = True"
| "is_validation (Numeric a) = False"

fun allclose_gradients_log ::
  "(string \<times> float TensorBlock) list \<Rightarrow> float TensorBlock \<Rightarrow> real \<Rightarrow> real \<Rightarrow> bool
     \<Rightarrow> event list \<times> (exn + unit)" where
  "allclose_gradients_log [] block_2 rtol atol equal_nan = ([], Inr ())"
| "allclose_gradients_log ((parameter, gradient1) # gs) block_2 rtol atol equal_nan =
     (case gradient block_2 parameter of
        Inl e \<Rightarrow> ([], Inl e)
      | Inr gradient2 \<Rightarrow>
         (case np_allclose (block_values gradient1) (block_values gradient2) rtol atol equal_nan of
            Inl e \<Rightarrow> ([Numeric ''allclose(gradient values)''], Inl e)
          | Inr False \<Rightarrow>
              ([Numeric ''allclose(gradient values)''],
               Inl (NotEqualError (''gradient '' @ [CHR 0x27] @ parameter @ [CHR 0x27]
                                   @ '' values are not allclose'')))
          | Inr True \<Rightarrow>
              (case allclose_gradients_log gs block_2 rtol atol equal_nan of
                 (events, result) \<Rightarrow> (Numeric ''allclose(gradient values)'' # events, result))))"

definition allclose_block_raise_log ::
  "float TensorBlock \<Rightarrow> float TensorBlock \<Rightarrow> real \<Rightarrow> real \<Rightarrow> bool \<Rightarrow> event list \<times> (exn + unit)"
  where
  "allclose_block_raise_log block_1 block_2 rtol atol equal_nan =
     (if \<not> (shape (block_values block_1) = shape (block_values block_2)) then
        ([Validation ''values.shape''], Inl (NotEqualError ''values shapes are different''))
      else
        case np_allclose (block_values block_1) (block_values block_2) rtol atol equal_nan of
          Inl e \<Rightarrow> ([Validation ''values.shape'', Numeric ''allclose(values)''], Inl e)
        | Inr False \<Rightarrow>
            ([Validation ''values.shape'', Numeric ''allclose(values)''],
             Inl (NotEqualError ''values are not allclose''))
        | Inr True \<Rightarrow>
           (case check_blocks block_1 block_2 [''samples'', ''properties'', ''components'']
                   ''allclose'' of
              Some (ValueError m) \<Rightarrow>
                ([Validation ''values.shape'', Numeric ''allclose(values)'',
                  Validation ''_check_blocks''], Inl (NotEqualError m))
            | Some e \<Rightarrow>
                ([Validation ''values.shape'', Numeric ''allclose(values)'',
                  Validation ''_check_blocks''], Inl e)
            | None \<Rightarrow>
               (case check_same_gradients block_1 block_2
                       [''samples'', ''properties'', ''components''] ''allclose'' of
                  Some e \<Rightarrow>
                    ([Validation ''values.shape'', Numeric ''allclose(values)'',
                      Validation ''_check_blocks'', Validation ''_check_same_gradients''], Inl e)
                | None \<Rightarrow>
                   (case allclose_gradients_log (gradients block_1) block_2 rtol atol equal_nan of
                      (events, result) \<Rightarrow>
                        ([Validation ''values.shape'', Numeric ''allclose(values)'',
                          Validation ''_check_blocks'', Validation ''_check_same_gradients'']
                           @ events, result)))))"

text \<open>\<^verbatim>\<open>divide\<close> on two TensorMaps: the loop over the keys and blocks of \<open>A\<close>, then the
  function from the check of the keys on.\<close>

fun divide_items_log ::
  "(int list \<times> real TensorBlock) list \<Rightarrow> real TensorMap
     \<Rightarrow> event list \<times> (exn + real TensorBlock list)" where
  "divide_items_log [] B = ([], Inr [])"
| "divide_items_log ((key, block_A) # rest) B =
     (case block B [ByKey key] [] of
        Inl e \<Rightarrow> ([], Inl e)
      | Inr block_B \<Rightarrow>
         (case check_blocks_raise block_A block_B ''divide'' of
            Some e \<Rightarrow> ([Validation ''_check_blocks_raise''], Inl e)
          | None \<Rightarrow>
             (case check_same_gradients_raise block_A block_B ''divide'' of
                Some e \<Rightarrow>
                  ([Validation ''_check_blocks_raise'',
                    Validation ''_check_same_gradients_raise''], Inl e)
              | None \<Rightarrow>
                 (case divide_block_block block_A block_B of
                    Inl e \<Rightarrow>
                      ([Validation ''_check_blocks_raise'',
                        Validation ''_check_same_gradients_raise'',
                        Numeric ''_divide_block_block''], Inl e)
                  | Inr b \<Rightarrow>
                     (case divide_items_log rest B of
                        (events, result) \<Rightarrow>
                          ([Validation ''_check_blocks_raise'',
                            Validation ''_check_same_gradients_raise'',
                            Numeric ''_divide_block_block''] @ events,
                           and_then result (\<lambda>bs. Inr (b # bs))))))))"

definition divide_maps_log ::
  "real TensorMap \<Rightarrow> real TensorMap \<Rightarrow> event list \<times> (exn + real TensorMap)" where
  "divide_maps_log A B =
     (case check_same_keys_raise A B ''divide'' of
        Some e \<Rightarrow> ([Validation ''_check_same_keys_raise''], Inl e)
      | None \<Rightarrow>
         (case divide_items_log (items A) B of
            (events, result) \<Rightarrow>
              (Validation ''_check_same_keys_raise'' # events,
               and_then result (new_TensorMap (keys A)))))"

text \<open>
  A log in which every block pair is checked before it is divided: it is made of the
  two checks and the division of one pair after the other, and may stop after any of them.
\<close>

fun pairs_checked_first :: "event list \<Rightarrow> bool" where
  "pairs_checked_first [] = True"
| "pairs_checked_first [Validation a] = (a = ''_check_blocks_raise'')"
| "pairs_checked_first [Validation a, Validation b] =
     (a = ''_check_blocks_raise'' \<and> b = ''_check_same_gradients_raise'')"
| "pairs_checked_first (Validation a # Validation b # Numeric c # events) =
     (a = ''_check_blocks_raise'' \<and> b = ''_check_same_gradients_raise''
      \<and> c = ''_divide_block_block'' \<and> pairs_checked_first events)"
| "pairs_checked_first events = False"

text \<open>Blocks for the examples: the blocks of the docstring of \<^verbatim>\<open>allclose_block_raise\<close>,
  which differ in the name of the property only, and a map of two blocks whose second
  block has other samples than the second block of the map it is divided by; a block of
  one sample.\<close>

definition other_samples :: "real TensorBlock" where
  "other_samples =
     TensorBlock (NDArray [1] [[1], [4]]) (Labels [''s''] [[0], [7]]) [] (Labels [''p''] [[0]])
       [(''g'', grad_block [[0], [1]] [[3], [8]])]"

definition one_sample :: "float TensorBlock" where
  "one_sample =
     TensorBlock (NDArray [3] [[Finite 1, Finite 2, Finite 4]])
       (Labels [''structure'', ''center''] [[0, 0]]) []
       (Labels [''properties''] [[0], [1], [2]]) []"

definition two_blocks :: "real TensorBlock \<Rightarrow> real TensorBlock \<Rightarrow> real TensorMap" where
  "two_blocks b c = TensorMap (Labels [''key''] [[0], [1]]) [b, c]"

section \<open>Moving key dimensions into properties or samples\<close>

text \<open>
  Modelled from the spec: \<^verbatim>\<open>keys_to_properties\<close> and \<^verbatim>\<open>keys_to_samples\<close> belong to the
  core package, which is not among the sources; only their tests are.  Section 4.4: the
  reduced key of a block is its key row without the moved dimensions; the blocks are
  grouped by reduced key, and the output keys are the reduced keys in first-seen order.
  A dimension that the keys do not have fails with the not-found error before any data
  is moved.
\<close>

definition unique_first :: "'a list \<Rightarrow> 'a list" where
  "unique_first xs = rev (remdups (rev xs))"

definition reduced_key :: "string list \<Rightarrow> string list \<Rightarrow> int list \<Rightarrow> int list" where
  "reduced_key dims nms key = map snd (filter (\<lambda>nv. fst nv \<notin> set dims) (zip nms key))"

definition moved_values :: "string list \<Rightarrow> string list \<Rightarrow> int list \<Rightarrow> int list" where
  "moved_values dims nms key = map (\<lambda>d. key ! index_of d nms) dims"

text \<open>The groups: for every reduced key, in first-seen order, the blocks under it, each
  with the values of the moved dimensions in its key row, in the order of the map.\<close>

definition groups ::
  "string list \<Rightarrow> 'v TensorMap \<Rightarrow> (int list \<times> (int list \<times> 'v TensorBlock) list) list" where
  "groups dims t =
     map (\<lambda>rk. (rk, map (\<lambda>kb. (moved_values dims (names (keys t)) (fst kb), snd kb))
                      (filter (\<lambda>kb. reduced_key dims (names (keys t)) (fst kb) = rk) (items t))))
       (unique_first (map (reduced_key dims (names (keys t))) (entries (keys t))))"

text \<open>The number of cells of the component axes, and the cell of a row at a flattened
  component index and a property index.\<close>

definition component_cells :: "'v TensorBlock \<Rightarrow> nat" where
  "component_cells b = prod_list (map (\<lambda>c. length (entries c)) (components b))"

definition cell_at :: "'v TensorBlock \<Rightarrow> nat \<Rightarrow> nat \<Rightarrow> nat \<Rightarrow> 'v" where
  "cell_at b i c q = rows (block_values b) ! i ! (c * length (entries (properties b)) + q)"

text \<open>
  Move to properties.  The properties of the merged block are the moved values followed
  by an original property row, one for every such pair in a block of the group.  Its
  samples are the union of the samples of the group, without repetition, in first-seen
  order.  A cell is taken from the contributing block, the one whose key holds the moved
  values of the property, when that block has the sample and the original property;
  every other cell is zero.
\<close>

definition merged_properties :: "(int list \<times> 'v TensorBlock) list \<Rightarrow> int list list" where
  "merged_properties grp =
     concat (map (\<lambda>mb. map (\<lambda>p. fst mb @ p) (entries (properties (snd mb)))) grp)"

definition merged_samples :: "(int list \<times> 'v TensorBlock) list \<Rightarrow> int list list" where
  "merged_samples grp = unique_first (concat (map (\<lambda>mb. entries (samples (snd mb))) grp))"

definition merged_cell ::
  "nat \<Rightarrow> (int list \<times> real TensorBlock) list \<Rightarrow> int list \<Rightarrow> nat \<Rightarrow> int list \<Rightarrow> real" where
  "merged_cell n grp s c new_p =
     (case find (\<lambda>mb. fst mb = take n new_p) grp of
        None \<Rightarrow> 0
      | Some mb \<Rightarrow>
         (if s \<in> set (entries (samples (snd mb)))
             \<and> drop n new_p \<in> set (entries (properties (snd mb)))
          then cell_at (snd mb) (index_of s (entries (samples (snd mb)))) c
                 (index_of (drop n new_p) (entries (properties (snd mb))))
          else 0))"

text \<open>
  The gradients follow the same rule.  The sample rows of a gradient are those of the
  contributing blocks, each with its first column re-indexed to the merged samples,
  without repetition; a cell is taken from the contributing block when its gradient has
  the sample row and the property, and is zero otherwise.
\<close>

definition reindexed ::
  "int list list \<Rightarrow> 'v TensorBlock \<Rightarrow> 'v TensorBlock \<Rightarrow> int list list" where
  "reindexed new_samples b g =
     map (\<lambda>r. int (index_of (entries (samples b) ! nat (hd r)) new_samples) # tl r)
       (entries (samples g))"

definition merged_gradient_samples ::
  "string \<Rightarrow> (int list \<times> 'v TensorBlock) list \<Rightarrow> int list list" where
  "merged_gradient_samples parameter grp =
     unique_first
       (concat (map (\<lambda>mb. case map_of (gradients (snd mb)) parameter of
                              None \<Rightarrow> []
                            | Some g \<Rightarrow> reindexed (merged_samples grp) (snd mb) g) grp))"

definition merged_gradient_cell ::
  "nat \<Rightarrow> string \<Rightarrow> (int list \<times> real TensorBlock) list \<Rightarrow> int list \<Rightarrow> nat \<Rightarrow> int list
     \<Rightarrow> real" where
  "merged_gradient_cell n parameter grp gs c new_p =
     (case find (\<lambda>mb. fst mb = take n new_p) grp of
        None \<Rightarrow> 0
      | Some mb \<Rightarrow>
         (case map_of (gradients (snd mb)) parameter of
            None \<Rightarrow> 0
          | Some g \<Rightarrow>
             (if gs \<in> set (reindexed (merged_samples grp) (snd mb) g)
                 \<and> drop n new_p \<in> set (entries (properties (snd mb)))
              then cell_at g (index_of gs (reindexed (merged_samples grp) (snd mb) g)) c
                     (index_of (drop n new_p) (entries (properties (snd mb))))
              else 0)))"

definition merge_to_properties ::
  "string list \<Rightarrow> (int list \<times> real TensorBlock) list \<Rightarrow> real TensorBlock" where
  "merge_to_properties dims grp =
     (let first = snd (hd grp);
          n = length dims;
          new_properties = Labels (dims @ names (properties first)) (merged_properties grp);
          tail = map (\<lambda>c. length (entries c)) (components first) @ [length (merged_properties grp)]
      in TensorBlock
           (NDArray tail
              (map (\<lambda>s. concat (map (\<lambda>c. map (merged_cell n grp s c) (merged_properties grp))
                                    [0 ..< component_cells first]))
                 (merged_samples grp)))
           (Labels (names (samples first)) (merged_samples grp))
           (components first)
           new_properties
           (map (\<lambda>pg. (fst pg,
                   TensorBlock
                     (NDArray tail
                        (map (\<lambda>gs. concat (map (\<lambda>c. map (merged_gradient_cell n (fst pg) grp gs c)
                                                        (merged_properties grp))
                                               [0 ..< component_cells first]))
                           (merged_gradient_samples (fst pg) grp)))
                     (Labels (names (samples (snd pg))) (merged_gradient_samples (fst pg) grp))
                     (components (snd pg))
                     new_properties
                     []))
              (gradients first)))"

definition move_to_properties :: "string list \<Rightarrow> real TensorMap \<Rightarrow> exn + real TensorMap" where
  "move_to_properties dims t =
     (if \<not> set dims \<subseteq> set (names (keys t)) then
        Inl (NotFoundError ''the keys have no such dimension'')
      else
        Inr (TensorMap
               (Labels (filter (\<lambda>n. n \<notin> set dims) (names (keys t))) (map fst (groups dims t)))
               (map (\<lambda>g. merge_to_properties dims (snd g)) (groups dims t))))"

text \<open>Reading a block by labels: the values of the row under a sample, and the values
  of the gradient row whose sample column, read as a sample of the block, and remaining
  columns are given.\<close>

definition sample_row :: "'v TensorBlock \<Rightarrow> int list \<Rightarrow> 'v list" where
  "sample_row b s = rows (block_values b) ! index_of s (entries (samples b))"

definition labelled_gradient_samples :: "'v TensorBlock \<Rightarrow> 'v TensorBlock \<Rightarrow> (int list \<times> int list) list"
  where
  "labelled_gradient_samples b g =
     map (\<lambda>r. (entries (samples b) ! nat (hd r), tl r)) (entries (samples g))"

definition gradient_row :: "'v TensorBlock \<Rightarrow> 'v TensorBlock \<Rightarrow> int list \<times> int list \<Rightarrow> 'v list" where
  "gradient_row b g sr = rows (block_values g) ! index_of sr (labelled_gradient_samples b g)"

text \<open>
  Move to samples.  The samples of the merged block are the sample rows of the blocks of
  the group, each followed by the moved values of its block, with the rows of values
  beside them: block after block and, within a block, in the order of the block.  With
  \<open>sort_samples\<close> the rows are then sorted by their sample row, in ascending
  lexicographic order, rows with equal labels keeping their order.  The blocks of a
  group must have the same properties.  The sample rows of a gradient are re-indexed to
  the merged samples and follow the same order.
\<close>

fun lex_le :: "int list \<Rightarrow> int list \<Rightarrow> bool" where
  "lex_le [] ys = True"
| "lex_le (x # xs) [] = False"
| "lex_le (x # xs) (y # ys) = (x < y \<or> (x = y \<and> lex_le xs ys))"

fun insert_row :: "int list \<times> 'a \<Rightarrow> (int list \<times> 'a) list \<Rightarrow> (int list \<times> 'a) list" where
  "insert_row x [] = [x]"
| "insert_row x (y # ys) = (if lex_le (fst x) (fst y) then x # y # ys else y # insert_row x ys)"

definition sort_rows :: "(int list \<times> 'a) list \<Rightarrow> (int list \<times> 'a) list" where
  "sort_rows xs = foldr insert_row xs []"

definition ordered_rows :: "bool \<Rightarrow> (int list \<times> 'a) list \<Rightarrow> (int list \<times> 'a) list" where
  "ordered_rows sort_samples xs = (if sort_samples then sort_rows xs else xs)"

definition labelled_rows ::
  "bool \<Rightarrow> (int list \<times> 'v TensorBlock) list \<Rightarrow> (int list \<times> 'v list) list" where
  "labelled_rows sort_samples grp =
     ordered_rows sort_samples
       (concat (map (\<lambda>mb. zip (map (\<lambda>s. s @ fst mb) (entries (samples (snd mb))))
                              (rows (block_values (snd mb)))) grp))"

definition labelled_gradient_rows ::
  "bool \<Rightarrow> string \<Rightarrow> (int list \<times> 'v TensorBlock) list \<Rightarrow> (int list \<times> 'v list) list" where
  "labelled_gradient_rows sort_samples parameter grp =
     ordered_rows sort_samples
       (concat (map (\<lambda>mb. case map_of (gradients (snd mb)) parameter of
                              None \<Rightarrow> []
                            | Some g \<Rightarrow>
                                zip (map (\<lambda>r. int (index_of
                                                      (entries (samples (snd mb)) ! nat (hd r) @ fst mb)
                                                      (map fst (labelled_rows sort_samples grp)))
                                               # tl r)
                                       (entries (samples g)))
                                  (rows (block_values g))) grp))"

definition merge_to_samples ::
  "string list \<Rightarrow> bool \<Rightarrow> (int list \<times> 'v TensorBlock) list \<Rightarrow> 'v TensorBlock" where
  "merge_to_samples dims sort_samples grp =
     (let first = snd (hd grp) in
      TensorBlock
        (NDArray (tail_shape (block_values first)) (map snd (labelled_rows sort_samples grp)))
        (Labels (names (samples first) @ dims) (map fst (labelled_rows sort_samples grp)))
        (components first)
        (properties first)
        (map (\<lambda>pg. (fst pg,
                TensorBlock
                  (NDArray (tail_shape (block_values (snd pg)))
                     (map snd (labelled_gradient_rows sort_samples (fst pg) grp)))
                  (Labels (names (samples (snd pg)))
                     (map fst (labelled_gradient_rows sort_samples (fst pg) grp)))
                  (components (snd pg))
                  (properties (snd pg))
                  []))
           (gradients first)))"

definition move_to_samples :: "string list \<Rightarrow> bool \<Rightarrow> 'v TensorMap \<Rightarrow> exn + 'v TensorMap" where
  "move_to_samples dims sort_samples t =
     (if \<not> set dims \<subseteq> set (names (keys t)) then
        Inl (NotFoundError ''the keys have no such dimension'')
      else if \<not> list_all (\<lambda>g. list_all (\<lambda>mb. properties (snd mb) = properties (snd (hd (snd g))))
                                  (snd g))
                 (groups dims t) then
        Inl (InconsistentMetadataError ''the blocks to merge have different properties'')
      else
        Inr (TensorMap
               (Labels (filter (\<lambda>n. n \<notin> set dims) (names (keys t))) (map fst (groups dims t)))
               (map (\<lambda>g. merge_to_samples dims sort_samples (snd g)) (groups dims t))))"

section \<open>Theorems\<close>

subsection \<open>Dispatch on an unsupported array type\<close>

lemma dispatch_all_unknown:
  "dispatch_all (OtherObject x) axis = Inl (TypeError UNKNOWN_ARRAY_TYPE)"
  by (simp add: dispatch_all_def)

lemma dispatch_where_unknown:
  "dispatch_where (OtherObject x) = Inl (TypeError UNKNOWN_ARRAY_TYPE)"
  by (simp add: dispatch_where_def)

lemma dispatch_concatenate_unknown:
  "dispatch_concatenate (OtherObject x # as) axis = Inl (TypeError UNKNOWN_ARRAY_TYPE)"
  by (simp add: dispatch_concatenate_def)

text \<open>
  Claim C5.  Every dispatch operation called with an array that is neither a numpy array
  nor a torch tensor should fail with the unsupported-array-type error.  \<^verbatim>\<open>unique\<close> does
  not: on such an object it raises nothing and returns \<^verbatim>\<open>None\<close>, while its sibling
  \<^verbatim>\<open>unique_with_inverse\<close> (like \<^verbatim>\<open>all\<close>, \<^verbatim>\<open>allclose\<close>, \<^verbatim>\<open>norm\<close> and \<^verbatim>\<open>where\<close>) raises
  the error.
\<close>

theorem C5_unique_unknown_returns_None:
  "dispatch_unique (OtherObject x) axis = Inr PyNone
   \<and> dispatch_unique (OtherObject x) axis \<noteq> Inl (TypeError UNKNOWN_ARRAY_TYPE)
   \<and> dispatch_unique_with_inverse (OtherObject x) axis = Inl (TypeError UNKNOWN_ARRAY_TYPE)
   \<and> dispatch_allclose (OtherObject x) b = Inl (TypeError UNKNOWN_ARRAY_TYPE)
   \<and> norm_metatensor (OtherObject x) axis = Inl (TypeError UNKNOWN_ARRAY_TYPE)"
  by (simp add: dispatch_unique_def dispatch_unique_with_inverse_def dispatch_allclose_def
      norm_metatensor_def)

text \<open>
  Claim C6.  The norm dispatcher should hand a numpy array to numpy's \<^verbatim>\<open>linalg.norm\<close> and
  a torch tensor to torch's, and the metatensor dispatcher should agree with the equistore
  one on every supported input.  On a numpy array the metatensor dispatcher calls
  \<^verbatim>\<open>torch.linalg.norm\<close>, on a torch tensor \<^verbatim>\<open>np.linalg.norm\<close>; the equistore dispatcher
  calls the array's own library, so the two differ on every supported input.
\<close>

theorem C6_norm_metatensor_swapped:
  "norm_metatensor (NumpyArray x) axis = Inr (Call Torch ''linalg.norm'' [NumpyArray x])
   \<and> norm_equistore (NumpyArray x) axis = Inr (Call Numpy ''linalg.norm'' [NumpyArray x])
   \<and> norm_metatensor (TorchTensor y) axis = Inr (Call Numpy ''linalg.norm'' [TorchTensor y])
   \<and> norm_equistore (TorchTensor y) axis = Inr (Call Torch ''linalg.norm'' [TorchTensor y])
   \<and> norm_metatensor (NumpyArray x) axis \<noteq> norm_equistore (NumpyArray x) axis
   \<and> norm_metatensor (TorchTensor y) axis \<noteq> norm_equistore (TorchTensor y) axis"
  by (simp add: norm_metatensor_def norm_equistore_def)

subsection \<open>Selecting blocks\<close>

text \<open>
  Claim C9.  On the tensor of the tests, with key rows \<open>(0,0), (1,0), (2,2), (2,3)\<close>:
  \<^verbatim>\<open>block(key_1=3)\<close> fails with the no-match error; \<^verbatim>\<open>block(key_2=0)\<close> fails with the
  ambiguous-match error, which names the multi-block accessor; \<^verbatim>\<open>block(2)\<close> returns the
  block at key-row index 2; two positional selectors fail with the too-many-arguments
  error; and \<^verbatim>\<open>blocks\<close> returns all matching blocks (two for \<^verbatim>\<open>key_2=0\<close>, none for
  \<^verbatim>\<open>key_1=3\<close>) without the ambiguity error.
\<close>

theorem C9_block_selection:
  "block tensor [] [(''key_1'', 3)]
     = Inl (NoMatchError (''Couldn't find any block matching the selection '' @ [CHR 0x27]
             @ ''key_1 = 3'' @ [CHR 0x27]))
   \<and> block tensor [] [(''key_2'', 0)]
     = Inl (AmbiguousMatchError (''more than one block matched '' @ [CHR 0x27] @ ''key_2 = 0''
             @ [CHR 0x27] @ '', use `TensorMap.blocks` if you want to get all of them''))
   \<and> block tensor [ByIndex 2] [] = Inr tblock_3
   \<and> block tensor [ByIndex 3, ByIndex 4] []
     = Inl (TooManyArgumentsError ''only one non-keyword argument is supported, 2 are given'')
   \<and> blocks_sel tensor [] [(''key_2'', 0)] = Inr [tblock_1, tblock_2]
   \<and> blocks_sel tensor [] [(''key_1'', 3)] = Inr []
   \<and> blocks_sel tensor [ByIndex 2] [] = Inr [tblock_3]"
  by (simp add: block_def blocks_sel_def blocks_matching_def tensor_def row_matches_def
      str_selection_def str_int_def upt_rec)

subsection \<open>Comparing a TensorMap with itself\<close>

lemma isclose_refl:
  "0 \<le> rtol \<Longrightarrow> 0 \<le> atol \<Longrightarrow> x \<noteq> NaN \<Longrightarrow> isclose rtol atol en x x"
  by (cases x) simp_all

lemma np_allclose_refl:
  assumes "0 \<le> rtol" "0 \<le> atol" "no_nan_array a"
  shows "np_allclose a a rtol atol en = Inr True"
proof -
  have "list_all (\<lambda>(x, y). isclose rtol atol en x y) (zip r r)" if "list_all (\<lambda>x. x \<noteq> NaN) r" for r
    using that assms(1,2) by (simp add: zip_same_conv_map list_all_iff isclose_refl)
  then have "list_all (\<lambda>(r, s). list_all (\<lambda>(x, y). isclose rtol atol en x y) (zip r s))
               (zip (rows a) (rows a))"
    using assms(3) by (auto simp: zip_same_conv_map list_all_iff no_nan_array_def)
  then show ?thesis by (simp add: np_allclose_def)
qed

lemma labels_differ_refl: "labels_differ fname prop x x = None"
  by (simp add: labels_differ_def)

lemma components_differ_refl: "components_differ fname cs cs = None"
  by (induction cs) (simp_all add: labels_differ_refl)

lemma blocks_differ_refl:
  "set props \<subseteq> {''samples'', ''properties'', ''components''} \<Longrightarrow> blocks_differ b b props fname = None"
  by (induction props) (auto simp: labels_differ_refl components_differ_refl)

lemma gradients_differ_refl:
  assumes "distinct (map fst (gradients b))"
    and "set props \<subseteq> {''samples'', ''properties'', ''components''}"
  shows "set gs \<subseteq> set (gradients b) \<Longrightarrow> gradients_differ gs b props fname = None"
proof (induction gs)
  case Nil
  then show ?case by simp
next
  case (Cons pg gs)
  obtain p g where pg: "pg = (p, g)" by (cases pg)
  with Cons.prems have "(p, g) \<in> set (gradients b)" by simp
  then have "map_of (gradients b) p = Some g" using assms(1) by simp
  with Cons pg assms(2) show ?case by (simp add: blocks_differ_refl)
qed

lemma allclose_gradients_refl:
  assumes "distinct (map fst (gradients b))" "0 \<le> rtol" "0 \<le> atol"
  shows "set gs \<subseteq> set (gradients b) \<Longrightarrow> list_all (\<lambda>pg. no_nan_array (block_values (snd pg))) gs
     \<Longrightarrow> allclose_gradients gs b rtol atol en = Inr ()"
proof (induction gs)
  case Nil
  then show ?case by simp
next
  case (Cons pg gs)
  obtain p g where pg: "pg = (p, g)" by (cases pg)
  with Cons.prems have "(p, g) \<in> set (gradients b)" by simp
  then have "map_of (gradients b) p = Some g" using assms(1) by simp
  then have "gradient b p = Inr g" by (simp add: gradient_def)
  moreover have "np_allclose (block_values g) (block_values g) rtol atol en = Inr True"
    using Cons.prems(2) pg assms by (simp add: np_allclose_refl)
  ultimately show ?case using Cons pg by simp
qed

lemma allclose_block_raise_refl:
  assumes "block_ok b" "no_nan_block b" "0 \<le> rtol" "0 \<le> atol"
  shows "allclose_block_raise b b rtol atol en = Inr ()"
proof -
  have d: "distinct (map fst (gradients b))"
    using assms(1) by (simp add: block_ok_def gradients_list_def)
  have "np_allclose (block_values b) (block_values b) rtol atol en = Inr True"
    using assms by (simp add: np_allclose_refl no_nan_block_def)
  moreover have "check_blocks b b [''samples'', ''properties'', ''components''] ''allclose'' = None"
    by (simp add: check_blocks_def labels_differ_refl components_differ_refl)
  moreover have "check_same_gradients b b [''samples'', ''properties'', ''components''] ''allclose'' = None"
    using d by (simp add: check_same_gradients_def same_gradients_differ_def gradients_differ_refl)
  moreover have "allclose_gradients (gradients b) b rtol atol en = Inr ()"
    using d assms by (simp add: allclose_gradients_refl no_nan_block_def)
  ultimately show ?thesis by (simp add: allclose_block_raise_def)
qed

lemma filter_nth_eq_distinct:
  assumes "distinct xs" "i < length xs"
  shows "filter (\<lambda>j. xs ! j = xs ! i) [0 ..< length xs] = [i]"
proof -
  have s: "[0 ..< length xs] = [0 ..< i] @ i # [Suc i ..< length xs]"
    using assms(2) by (metis le0 le_add_diff_inverse less_imp_le_nat upt_add_eq_append upt_conv_Cons)
  have "filter (\<lambda>j. xs ! j = xs ! i) [0 ..< i] = []"
    using assms by (auto simp: filter_empty_conv nth_eq_iff_index_eq)
  moreover have "filter (\<lambda>j. xs ! j = xs ! i) [Suc i ..< length xs] = []"
    using assms by (auto simp: filter_empty_conv nth_eq_iff_index_eq)
  ultimately show ?thesis by (subst s) simp
qed

lemma block_by_key:
  assumes "tensor_ok t" "i < length (blocks t)"
  shows "block t [ByKey (entries (keys t) ! i)] [] = Inr (blocks t ! i)"
proof -
  have l: "length (blocks t) = length (entries (keys t))" and d: "distinct (entries (keys t))"
    using assms(1) by (simp_all add: tensor_ok_def)
  have "blocks_matching t [ByKey (entries (keys t) ! i)] [] = Inr [i]"
    using filter_nth_eq_distinct[OF d, of i] assms(2) l
    by (simp add: blocks_matching_def row_matches_def)
  then show ?thesis by (simp add: block_def)
qed

lemma allclose_items_refl:
  assumes "0 \<le> rtol" "0 \<le> atol"
  shows "list_all (\<lambda>kb. block t [ByKey (fst kb)] [] = Inr (snd kb) \<and> block_ok (snd kb) \<and> no_nan_block (snd kb)) its
     \<Longrightarrow> allclose_items its t rtol atol en = Inr ()"
proof (induction its)
  case Nil
  then show ?case by simp
next
  case (Cons kb its)
  obtain k b where kb: "kb = (k, b)" by (cases kb)
  with Cons.prems have "block t [ByKey k] [] = Inr b" "block_ok b" "no_nan_block b" by simp_all
  then show ?case using Cons kb assms by (simp add: allclose_block_raise_refl)
qed

lemma items_ok:
  assumes "tensor_ok t" "no_nan t"
  shows "list_all (\<lambda>kb. block t [ByKey (fst kb)] [] = Inr (snd kb) \<and> block_ok (snd kb) \<and> no_nan_block (snd kb)) (items t)"
proof -
  have l: "length (blocks t) = length (entries (keys t))"
    using assms(1) by (simp add: tensor_ok_def)
  have "block t [ByKey (fst kb)] [] = Inr (snd kb) \<and> block_ok (snd kb) \<and> no_nan_block (snd kb)"
    if "kb \<in> set (items t)" for kb
  proof -
    from that obtain i where i: "i < length (blocks t)" "kb = (entries (keys t) ! i, blocks t ! i)"
      using l by (auto simp: items_def set_zip)
    then show ?thesis
      using assms block_by_key[OF assms(1), of i]
      by (simp add: tensor_ok_def no_nan_def list_all_iff)
  qed
  then show ?thesis by (simp add: list_all_iff)
qed

subsection \<open>The errors of \<^verbatim>\<open>allclose_raise\<close>\<close>

lemma labels_differ_None: "labels_differ fname prop x y = None \<longleftrightarrow> x = y"
  by (auto simp: labels_differ_def Labels.expand)

lemma components_differ_None: "components_differ fname cs ds = None \<longleftrightarrow> cs = ds"
  by (induction fname cs ds rule: components_differ.induct)
     (auto simp: labels_differ_None labels_differ_refl split: option.splits)

lemma blocks_differ_None:
  "blocks_differ a b [''samples'', ''properties'', ''components''] fname = None
     \<longleftrightarrow> samples a = samples b \<and> properties a = properties b \<and> components a = components b"
  by (auto simp: labels_differ_None components_differ_None labels_differ_refl components_differ_refl
      split: option.splits)

lemma gradients_differ_None:
  "gradients_differ gs b [''samples'', ''properties'', ''components''] fname = None \<Longrightarrow> (p, g1) \<in> set gs \<Longrightarrow>
     \<exists>g2. map_of (gradients b) p = Some g2
        \<and> samples g1 = samples g2 \<and> properties g1 = properties g2 \<and> components g1 = components g2"
proof (induction gs)
  case Nil
  then show ?case by simp
next
  case (Cons pg gs)
  obtain q h where pg: "pg = (q, h)" by (cases pg)
  show ?case
  proof (cases "(p, g1) = (q, h)")
    case True
    with Cons.prems(1) pg show ?thesis
      by (auto simp: blocks_differ_None simp del: blocks_differ.simps split: option.splits)
  next
    case False
    with Cons.prems pg have "(p, g1) \<in> set gs"
      and "gradients_differ gs b [''samples'', ''properties'', ''components''] fname = None"
      by (auto simp del: blocks_differ.simps split: option.splits)
    with Cons.IH show ?thesis by blast
  qed
qed

lemma array_ok_lengths:
  "array_ok a \<Longrightarrow> map length (rows a) = replicate (length (rows a)) (prod_list (tail_shape a))"
  by (auto simp: array_ok_def list_all_iff intro!: nth_equalityI)

lemma shape_ok_same_labels:
  assumes "shape_ok g1" "shape_ok g2"
    and "samples g1 = samples g2" "properties g1 = properties g2" "components g1 = components g2"
  shows "shape (block_values g1) = shape (block_values g2)"
    and "map length (rows (block_values g1)) = map length (rows (block_values g2))"
proof -
  show s: "shape (block_values g1) = shape (block_values g2)"
    using assms by (simp add: shape_ok_def)
  then have "length (rows (block_values g1)) = length (rows (block_values g2))"
    and "tail_shape (block_values g1) = tail_shape (block_values g2)"
    by (simp_all add: shape_def)
  moreover have "array_ok (block_values g1)" "array_ok (block_values g2)"
    using assms(1,2) by (simp_all add: shape_ok_def)
  ultimately show "map length (rows (block_values g1)) = map length (rows (block_values g2))"
    by (simp add: array_ok_lengths)
qed

lemma np_allclose_total:
  "shape a = shape b \<Longrightarrow> map length (rows a) = map length (rows b) \<Longrightarrow>
     \<exists>c. np_allclose a b rtol atol en = Inr c"
  by (simp add: np_allclose_def)

lemma allclose_gradients_error:
  assumes "list_all (\<lambda>pg. gradient_ok b2 (snd pg)) (gradients b2)"
  shows "list_all (\<lambda>pg. gradient_ok b1 (snd pg)) gs \<Longrightarrow>
    (\<And>p g1. (p, g1) \<in> set gs \<Longrightarrow> \<exists>g2. map_of (gradients b2) p = Some g2
        \<and> samples g1 = samples g2 \<and> properties g1 = properties g2 \<and> components g1 = components g2) \<Longrightarrow>
    allclose_gradients gs b2 rtol atol en = Inl e \<Longrightarrow> \<exists>m. e = NotEqualError m"
proof (induction gs)
  case Nil
  then show ?case by simp
next
  case (Cons pg gs)
  obtain p g1 where pg: "pg = (p, g1)" by (cases pg)
  from Cons.prems(2)[of p g1] pg obtain g2 where g2: "map_of (gradients b2) p = Some g2"
    "samples g1 = samples g2" "properties g1 = properties g2" "components g1 = components g2"
    by auto
  from g2(1) have "(p, g2) \<in> set (gradients b2)" by (rule map_of_SomeD)
  with assms have "shape_ok g2" by (auto simp: list_all_iff gradient_ok_def)
  moreover from Cons.prems(1) pg have "shape_ok g1" by (simp add: gradient_ok_def)
  ultimately obtain c where c: "np_allclose (block_values g1) (block_values g2) rtol atol en = Inr c"
    using shape_ok_same_labels[of g1 g2] g2 np_allclose_total by blast
  have g: "gradient b2 p = Inr g2" using g2(1) by (simp add: gradient_def)
  show ?case
  proof (cases c)
    case True
    with Cons.prems(3) pg g c have "allclose_gradients gs b2 rtol atol en = Inl e" by simp
    moreover from Cons.prems(1) have "list_all (\<lambda>pg. gradient_ok b1 (snd pg)) gs" by simp
    ultimately show ?thesis using Cons.IH Cons.prems(2) by simp
  next
    case False
    with Cons.prems(3) pg g c show ?thesis by auto
  qed
qed

lemma allclose_block_raise_error:
  assumes "block_ok b1" "block_ok b2" "allclose_block_raise b1 b2 rtol atol en = Inl e"
  shows "\<exists>m. e = NotEqualError m"
proof (cases "shape (block_values b1) = shape (block_values b2)")
  case False
  with assms(3) show ?thesis by (auto simp: allclose_block_raise_def)
next
  case s: True
  have "length (rows (block_values b1)) = length (rows (block_values b2))"
    and "tail_shape (block_values b1) = tail_shape (block_values b2)"
    using s by (simp_all add: shape_def)
  moreover have "array_ok (block_values b1)" "array_ok (block_values b2)"
    using assms(1,2) by (simp_all add: block_ok_def shape_ok_def)
  ultimately have "map length (rows (block_values b1)) = map length (rows (block_values b2))"
    by (simp add: array_ok_lengths)
  with s obtain c where c: "np_allclose (block_values b1) (block_values b2) rtol atol en = Inr c"
    using np_allclose_total by blast
  show ?thesis
  proof (cases c)
    case False
    with assms(3) s c show ?thesis by (auto simp: allclose_block_raise_def)
  next
    case True
    show ?thesis
    proof (cases "blocks_differ b1 b2 [''samples'', ''properties'', ''components''] ''allclose''")
      case (Some m)
      with assms(3) s c True show ?thesis
        by (auto simp: allclose_block_raise_def check_blocks_def simp del: blocks_differ.simps)
    next
      case None
      show ?thesis
      proof (cases "same_gradients_differ b1 b2 [''samples'', ''properties'', ''components''] ''allclose''")
        case (Some m)
        with assms(3) s c True None show ?thesis
          by (auto simp: allclose_block_raise_def check_blocks_def check_same_gradients_def
              simp del: blocks_differ.simps)
      next
        case n2: None
        then have gd: "gradients_differ (gradients b1) b2 [''samples'', ''properties'', ''components''] ''allclose'' = None"
          by (auto simp: same_gradients_differ_def split: if_splits)
        from assms(3) s c True None n2
        have "allclose_gradients (gradients b1) b2 rtol atol en = Inl e"
          by (auto simp: allclose_block_raise_def check_blocks_def check_same_gradients_def
              simp del: blocks_differ.simps)
        then show ?thesis
          using allclose_gradients_error[of b2 b1 "gradients b1" rtol atol en e]
            gradients_differ_None[OF gd] assms(1,2)
          by (auto simp: block_ok_def)
      qed
    qed
  qed
qed

lemma allclose_items_error:
  "list_all (\<lambda>kb. block_ok (snd kb) \<and> (\<exists>b2. block t2 [ByKey (fst kb)] [] = Inr b2 \<and> block_ok b2)) its \<Longrightarrow>
   allclose_items its t2 rtol atol en = Inl e \<Longrightarrow>
   \<exists>i<length its. \<exists>b2 m. e = NotEqualError (key_message (fst (its ! i)))
      \<and> block t2 [ByKey (fst (its ! i))] [] = Inr b2
      \<and> allclose_block_raise (snd (its ! i)) b2 rtol atol en = Inl (NotEqualError m)
      \<and> (\<forall>j<i. \<exists>b2'. block t2 [ByKey (fst (its ! j))] [] = Inr b2'
            \<and> allclose_block_raise (snd (its ! j)) b2' rtol atol en = Inr ())"
proof (induction its)
  case Nil
  then show ?case by simp
next
  case (Cons kb its)
  obtain k b1 where kb: "kb = (k, b1)" by (cases kb)
  from Cons.prems(1) kb obtain b2 where b2: "block t2 [ByKey k] [] = Inr b2" "block_ok b2" "block_ok b1"
    by auto
  show ?case
  proof (cases "allclose_block_raise b1 b2 rtol atol en")
    case (Inl e')
    then obtain m where m: "e' = NotEqualError m"
      using allclose_block_raise_error b2 by blast
    with Inl Cons.prems(2) kb b2 have "e = NotEqualError (key_message k)"
      by (simp add: key_message_def)
    with Inl m b2 kb show ?thesis by (intro exI[of _ 0]) simp
  next
    case (Inr u)
    with Cons.prems(2) kb b2 have "allclose_items its t2 rtol atol en = Inl e" by simp
    moreover from Cons.prems(1) have "list_all (\<lambda>kb. block_ok (snd kb) \<and> (\<exists>b2. block t2 [ByKey (fst kb)] [] = Inr b2 \<and> block_ok b2)) its"
      by simp
    ultimately obtain i b2' m where i: "i < length its" "e = NotEqualError (key_message (fst (its ! i)))"
      "block t2 [ByKey (fst (its ! i))] [] = Inr b2'"
      "allclose_block_raise (snd (its ! i)) b2' rtol atol en = Inl (NotEqualError m)"
      "\<forall>j<i. \<exists>b2'. block t2 [ByKey (fst (its ! j))] [] = Inr b2'
            \<and> allclose_block_raise (snd (its ! j)) b2' rtol atol en = Inr ()"
      using Cons.IH by blast
    have "\<exists>b2'. block t2 [ByKey (fst ((kb # its) ! j))] [] = Inr b2'
            \<and> allclose_block_raise (snd ((kb # its) ! j)) b2' rtol atol en = Inr ()" if "j < Suc i" for j
      using that i(5) Inr b2 kb by (cases j) auto
    with i show ?thesis by (intro exI[of _ "Suc i"]) auto
  qed
qed

lemma block_in_other:
  assumes "tensor_ok t2" "k \<in> set (entries (keys t2))"
  shows "\<exists>b2. block t2 [ByKey k] [] = Inr b2 \<and> block_ok b2"
proof -
  from assms(2) obtain i where i: "i < length (entries (keys t2))" "k = entries (keys t2) ! i"
    by (auto simp: in_set_conv_nth)
  with assms(1) have "i < length (blocks t2)" by (simp add: tensor_ok_def)
  then show ?thesis
    using block_by_key[OF assms(1), of i] i(2) assms(1)
    by (auto simp: tensor_ok_def list_all_iff)
qed

text \<open>
  \<^verbatim>\<open>allclose_block_raise\<close> returns exactly on the pairs of blocks that are close.
\<close>

lemma list_all2_zip_rows:
  "map length xs = map length ys \<Longrightarrow>
     list_all2 (list_all2 P) xs ys
       \<longleftrightarrow> list_all (\<lambda>(r, s). list_all (\<lambda>(x, y). P x y) (zip r s)) (zip xs ys)"
proof (induction xs arbitrary: ys)
  case Nil
  then show ?case by simp
next
  case (Cons r xs)
  then obtain s ys' where ys: "ys = s # ys'" by (cases ys) auto
  with Cons.prems have l: "length r = length s" "map length xs = map length ys'" by simp_all
  have "list_all2 P r s \<longleftrightarrow> list_all (\<lambda>(x, y). P x y) (zip r s)"
    using l(1) by (simp add: list_all2_iff list_all_iff)
  with Cons.IH[OF l(2)] ys show ?case by simp
qed

lemma list_all2_row_lengths:
  "list_all2 (list_all2 P) xs ys \<Longrightarrow> map length xs = map length ys"
  by (induction rule: list_all2_induct) (auto dest: list_all2_lengthD)

lemma np_allclose_close:
  "np_allclose a b rtol atol en = Inr True \<longleftrightarrow> arrays_close rtol atol en a b"
proof (cases "shape a = shape b \<and> map length (rows a) = map length (rows b)")
  case True
  then show ?thesis
    using list_all2_zip_rows[of "rows a" "rows b" "isclose rtol atol en"]
    by (simp add: np_allclose_def arrays_close_def)
next
  case False
  then have "\<not> arrays_close rtol atol en a b"
    using list_all2_row_lengths[of "isclose rtol atol en" "rows a" "rows b"]
    by (auto simp: arrays_close_def)
  with False show ?thesis by (auto simp: np_allclose_def)
qed

lemma gradients_close:
  "gradients_differ gs b2 [''samples'', ''properties'', ''components''] fname = None
     \<and> allclose_gradients gs b2 rtol atol en = Inr ()
   \<longleftrightarrow> list_all (gradient_close rtol atol en b2) gs"
proof (induction gs)
  case Nil
  then show ?case by simp
next
  case (Cons pg gs)
  obtain p g1 where pg: "pg = (p, g1)" by (cases pg)
  show ?case
  proof (cases "map_of (gradients b2) p")
    case None
    with pg show ?thesis by (simp add: gradient_close_def)
  next
    case (Some g2)
    let ?f = "fname @ '' (gradient '' @ p @ '')''"
    have m: "blocks_differ g1 g2 [''samples'', ''properties'', ''components''] ?f = None
        \<longleftrightarrow> metadata_equal g1 g2"
      unfolding blocks_differ_None by (auto simp: metadata_equal_def)
    have g: "gradient b2 p = Inr g2" using Some by (simp add: gradient_def)
    show ?thesis
    proof (cases "blocks_differ g1 g2 [''samples'', ''properties'', ''components''] ?f")
      case d: (Some msg)
      with m have "\<not> metadata_equal g1 g2" by simp
      with d pg Some show ?thesis by (simp add: gradient_close_def del: blocks_differ.simps)
    next
      case d: None
      with m have me: "metadata_equal g1 g2" by simp
      show ?thesis
      proof (cases "np_allclose (block_values g1) (block_values g2) rtol atol en")
        case (Inl e)
        then have "\<not> arrays_close rtol atol en (block_values g1) (block_values g2)"
          using np_allclose_close[of "block_values g1" "block_values g2" rtol atol en] by simp
        with Inl pg Some g d show ?thesis by (simp add: gradient_close_def del: blocks_differ.simps)
      next
        case (Inr c)
        show ?thesis
        proof (cases c)
          case True
          with Inr have "arrays_close rtol atol en (block_values g1) (block_values g2)"
            using np_allclose_close[of "block_values g1" "block_values g2" rtol atol en] by simp
          with Inr True pg Some g d me Cons.IH show ?thesis
            by (simp add: gradient_close_def del: blocks_differ.simps)
        next
          case False
          with Inr have "\<not> arrays_close rtol atol en (block_values g1) (block_values g2)"
            using np_allclose_close[of "block_values g1" "block_values g2" rtol atol en] by simp
          with Inr False pg Some g d show ?thesis
            by (simp add: gradient_close_def del: blocks_differ.simps)
        qed
      qed
    qed
  qed
qed

lemma allclose_block_raise_close:
  assumes "block_ok b1" "block_ok b2"
  shows "allclose_block_raise b1 b2 rtol atol en = Inr () \<longleftrightarrow> blocks_close rtol atol en b1 b2"
proof (cases "np_allclose (block_values b1) (block_values b2) rtol atol en = Inr True")
  case False
  then have n: "\<not> arrays_close rtol atol en (block_values b1) (block_values b2)"
    by (simp add: np_allclose_close)
  from False have "allclose_block_raise b1 b2 rtol atol en \<noteq> Inr ()"
    by (cases "np_allclose (block_values b1) (block_values b2) rtol atol en")
       (auto simp: allclose_block_raise_def)
  with n show ?thesis by (simp add: blocks_close_def)
next
  case True
  then have a: "arrays_close rtol atol en (block_values b1) (block_values b2)"
    by (simp add: np_allclose_close)
  then have s: "shape (block_values b1) = shape (block_values b2)" by (simp add: arrays_close_def)
  have m: "blocks_differ b1 b2 [''samples'', ''properties'', ''components''] ''allclose'' = None
      \<longleftrightarrow> metadata_equal b1 b2"
    unfolding blocks_differ_None by (auto simp: metadata_equal_def)
  show ?thesis
  proof (cases "blocks_differ b1 b2 [''samples'', ''properties'', ''components''] ''allclose''")
    case (Some msg)
    with m have "\<not> metadata_equal b1 b2" by simp
    moreover from Some True s have "allclose_block_raise b1 b2 rtol atol en \<noteq> Inr ()"
      by (simp add: allclose_block_raise_def check_blocks_def del: blocks_differ.simps)
    ultimately show ?thesis by (simp add: blocks_close_def)
  next
    case None
    with m have me: "metadata_equal b1 b2" by simp
    show ?thesis
    proof (cases "set (gradients_list b1) = set (gradients_list b2)")
      case False
      with None True s have "allclose_block_raise b1 b2 rtol atol en \<noteq> Inr ()"
        by (simp add: allclose_block_raise_def check_blocks_def check_same_gradients_def
            same_gradients_differ_def del: blocks_differ.simps)
      with False show ?thesis by (simp add: blocks_close_def)
    next
      case e: True
      have "length (gradients_list b1) = length (gradients_list b2)"
        using assms e by (metis distinct_card block_ok_def)
      with e have sg: "same_gradients_differ b1 b2 [''samples'', ''properties'', ''components''] ''allclose''
          = gradients_differ (gradients b1) b2 [''samples'', ''properties'', ''components''] ''allclose''"
        by (simp add: same_gradients_differ_def)
      show ?thesis
      proof (cases "gradients_differ (gradients b1) b2 [''samples'', ''properties'', ''components''] ''allclose''")
        case d: None
        with sg None True s
        have "allclose_block_raise b1 b2 rtol atol en
            = allclose_gradients (gradients b1) b2 rtol atol en"
          by (simp add: allclose_block_raise_def check_blocks_def check_same_gradients_def
              del: blocks_differ.simps)
        with d a me e show ?thesis
          using gradients_close[of "gradients b1" b2 "''allclose''" rtol atol en]
          by (simp add: blocks_close_def)
      next
        case d: (Some msg)
        with sg None True s have "allclose_block_raise b1 b2 rtol atol en \<noteq> Inr ()"
          by (simp add: allclose_block_raise_def check_blocks_def check_same_gradients_def
              del: blocks_differ.simps)
        moreover from d have "\<not> list_all (gradient_close rtol atol en b2) (gradients b1)"
          using gradients_close[of "gradients b1" b2 "''allclose''" rtol atol en] by simp
        ultimately show ?thesis by (simp add: blocks_close_def)
      qed
    qed
  qed
qed

lemma allclose_items_first_difference:
  "i < length its \<Longrightarrow>
   (\<And>j. j \<le> i \<Longrightarrow> block t2 [ByKey (fst (its ! j))] [] = Inr (other (fst (its ! j)))) \<Longrightarrow>
   (\<And>j. j < i \<Longrightarrow> allclose_block_raise (snd (its ! j)) (other (fst (its ! j))) rtol atol en = Inr ()) \<Longrightarrow>
   allclose_block_raise (snd (its ! i)) (other (fst (its ! i))) rtol atol en = Inl (NotEqualError m) \<Longrightarrow>
   allclose_items its t2 rtol atol en = Inl (NotEqualError (key_message (fst (its ! i))))"
proof (induction its arbitrary: i)
  case Nil
  then show ?case by simp
next
  case (Cons kb its)
  obtain k b1 where kb: "kb = (k, b1)" by (cases kb)
  from Cons.prems(2)[of 0] kb have b: "block t2 [ByKey k] [] = Inr (other k)" by simp
  show ?case
  proof (cases i)
    case 0
    with Cons.prems(4) kb b show ?thesis by (simp add: key_message_def)
  next
    case (Suc i')
    with Cons.prems(3)[of 0] kb have "allclose_block_raise b1 (other k) rtol atol en = Inr ()" by simp
    with kb b have "allclose_items (kb # its) t2 rtol atol en = allclose_items its t2 rtol atol en"
      by simp
    moreover have "allclose_items its t2 rtol atol en = Inl (NotEqualError (key_message (fst (its ! i'))))"
    proof (rule Cons.IH)
      show "i' < length its" using Cons.prems(1) Suc by simp
      show "block t2 [ByKey (fst (its ! j))] [] = Inr (other (fst (its ! j)))" if "j \<le> i'" for j
        using Cons.prems(2)[of "Suc j"] that Suc by simp
      show "allclose_block_raise (snd (its ! j)) (other (fst (its ! j))) rtol atol en = Inr ()"
        if "j < i'" for j
        using Cons.prems(3)[of "Suc j"] that Suc by simp
      show "allclose_block_raise (snd (its ! i')) (other (fst (its ! i'))) rtol atol en
          = Inl (NotEqualError m)"
        using Cons.prems(4) Suc by simp
    qed
    ultimately show ?thesis using Suc by simp
  qed
qed

lemma allclose_items_all_close:
  "(\<And>j. j < length its \<Longrightarrow> block t2 [ByKey (fst (its ! j))] [] = Inr (other (fst (its ! j)))
        \<and> allclose_block_raise (snd (its ! j)) (other (fst (its ! j))) rtol atol en = Inr ()) \<Longrightarrow>
   allclose_items its t2 rtol atol en = Inr ()"
proof (induction its)
  case Nil
  then show ?case by simp
next
  case (Cons kb its)
  obtain k b1 where kb: "kb = (k, b1)" by (cases kb)
  from Cons.prems[of 0] kb have "block t2 [ByKey k] [] = Inr (other k)"
    "allclose_block_raise b1 (other k) rtol atol en = Inr ()" by simp_all
  with kb have "allclose_items (kb # its) t2 rtol atol en = allclose_items its t2 rtol atol en"
    by simp
  moreover have "allclose_items its t2 rtol atol en = Inr ()"
  proof (rule Cons.IH)
    fix j assume "j < length its"
    then show "block t2 [ByKey (fst (its ! j))] [] = Inr (other (fst (its ! j)))
        \<and> allclose_block_raise (snd (its ! j)) (other (fst (its ! j))) rtol atol en = Inr ()"
      using Cons.prems[of "Suc j"] by simp
  qed
  ultimately show ?case by simp
qed

text \<open>
  With matching keys, block \<open>i\<close> of the first map is compared with the block of the second
  under key row \<open>i\<close> of the first; the first pair that is not close decides the error.
\<close>

lemma index_of_nth: "x \<in> set xs \<Longrightarrow> index_of x xs < length xs \<and> xs ! index_of x xs = x"
  by (induction xs) auto

lemma the_block_lookup:
  assumes "tensor_ok B" "key \<in> set (entries (keys B))"
  shows "block B [ByKey key] [] = Inr (the_block B key)" and "block_ok (the_block B key)"
proof -
  have l: "length (blocks B) = length (entries (keys B))" using assms(1) by (simp add: tensor_ok_def)
  let ?i = "index_of key (entries (keys B))"
  have i: "?i < length (blocks B)" "entries (keys B) ! ?i = key"
    using index_of_nth[OF assms(2)] l by simp_all
  show "block B [ByKey key] [] = Inr (the_block B key)"
    using block_by_key[OF assms(1) i(1)] i(2) by (simp add: the_block_def)
  show "block_ok (the_block B key)"
    using assms(1) i(1) by (simp add: tensor_ok_def the_block_def list_all_length)
qed

lemma matched_pairs:
  assumes "tensor_ok t1" "tensor_ok t2" "set (entries (keys t1)) = set (entries (keys t2))"
    and "j < length (blocks t1)"
  shows "items t1 ! j = (entries (keys t1) ! j, blocks t1 ! j)"
    and "block t2 [ByKey (entries (keys t1) ! j)] [] = Inr (the_block t2 (entries (keys t1) ! j))"
    and "block_ok (blocks t1 ! j)"
    and "block_ok (the_block t2 (entries (keys t1) ! j))"
proof -
  have l: "length (blocks t1) = length (entries (keys t1))" using assms(1) by (simp add: tensor_ok_def)
  with assms(4) show "items t1 ! j = (entries (keys t1) ! j, blocks t1 ! j)" by (simp add: items_def)
  from l assms(3,4) have k: "entries (keys t1) ! j \<in> set (entries (keys t2))"
    by (metis nth_mem)
  from the_block_lookup[OF assms(2) k]
  show "block t2 [ByKey (entries (keys t1) ! j)] [] = Inr (the_block t2 (entries (keys t1) ! j))"
    and "block_ok (the_block t2 (entries (keys t1) ! j))" by simp_all
  show "block_ok (blocks t1 ! j)" using assms(1,4) by (simp add: tensor_ok_def list_all_length)
qed

lemma allclose_raise_matched_keys:
  assumes "tensor_ok t1" "tensor_ok t2" "names (keys t1) = names (keys t2)"
    "set (entries (keys t1)) = set (entries (keys t2))"
  shows "allclose_raise t1 t2 rtol atol en = allclose_items (items t1) t2 rtol atol en"
proof -
  have "length (entries (keys t1)) = length (entries (keys t2))"
    using assms(1,2,4) by (metis distinct_card tensor_ok_def)
  with assms(3,4) have "check_same_keys t1 t2 ''allclose'' = None" by (simp add: check_same_keys_def)
  then show ?thesis by (simp add: allclose_raise_def)
qed

lemma allclose_raise_first_difference:
  assumes ok: "tensor_ok t1" "tensor_ok t2" and n: "names (keys t1) = names (keys t2)"
    and s: "set (entries (keys t1)) = set (entries (keys t2))"
    and i: "i < length (blocks t1)"
    and d: "\<not> blocks_close rtol atol en (blocks t1 ! i) (the_block t2 (entries (keys t1) ! i))"
    and c: "\<forall>j<i. blocks_close rtol atol en (blocks t1 ! j) (the_block t2 (entries (keys t1) ! j))"
  shows "allclose_raise t1 t2 rtol atol en = Inl (NotEqualError (key_message (entries (keys t1) ! i)))"
proof -
  note mp = matched_pairs[OF ok s]
  have "allclose_block_raise (blocks t1 ! i) (the_block t2 (entries (keys t1) ! i)) rtol atol en \<noteq> Inr ()"
    using allclose_block_raise_close[OF mp(3,4)[OF i]] d by simp
  then obtain e where e: "allclose_block_raise (blocks t1 ! i) (the_block t2 (entries (keys t1) ! i)) rtol atol en = Inl e"
    by (cases "allclose_block_raise (blocks t1 ! i) (the_block t2 (entries (keys t1) ! i)) rtol atol en") auto
  from allclose_block_raise_error[OF mp(3,4)[OF i] e] obtain m where m: "e = NotEqualError m" ..
  have l: "i < length (items t1)" using i ok(1) by (simp add: items_def tensor_ok_def)
  have "allclose_items (items t1) t2 rtol atol en
      = Inl (NotEqualError (key_message (fst (items t1 ! i))))"
  proof (rule allclose_items_first_difference[where other = "the_block t2" and m = m, OF l])
    show "block t2 [ByKey (fst (items t1 ! j))] [] = Inr (the_block t2 (fst (items t1 ! j)))"
      if "j \<le> i" for j
      using mp(1,2)[of j] that i by simp
    show "allclose_block_raise (snd (items t1 ! j)) (the_block t2 (fst (items t1 ! j))) rtol atol en = Inr ()"
      if "j < i" for j
      using mp(1)[of j] allclose_block_raise_close[OF mp(3,4)[of j], of rtol atol en] c that i by simp
    show "allclose_block_raise (snd (items t1 ! i)) (the_block t2 (fst (items t1 ! i))) rtol atol en
        = Inl (NotEqualError m)"
      using mp(1)[OF i] e m by simp
  qed
  then show ?thesis
    using allclose_raise_matched_keys[OF ok n s] mp(1)[OF i] by simp
qed

lemma allclose_raise_all_close:
  assumes ok: "tensor_ok t1" "tensor_ok t2" and n: "names (keys t1) = names (keys t2)"
    and s: "set (entries (keys t1)) = set (entries (keys t2))"
    and c: "\<forall>j<length (blocks t1).
              blocks_close rtol atol en (blocks t1 ! j) (the_block t2 (entries (keys t1) ! j))"
  shows "allclose_raise t1 t2 rtol atol en = Inr ()"
proof -
  note mp = matched_pairs[OF ok s]
  have l: "length (items t1) = length (blocks t1)" using ok(1) by (simp add: items_def tensor_ok_def)
  have "allclose_items (items t1) t2 rtol atol en = Inr ()"
  proof (rule allclose_items_all_close[where other = "the_block t2"])
    fix j assume "j < length (items t1)"
    with l have j: "j < length (blocks t1)" by simp
    show "block t2 [ByKey (fst (items t1 ! j))] [] = Inr (the_block t2 (fst (items t1 ! j)))
        \<and> allclose_block_raise (snd (items t1 ! j)) (the_block t2 (fst (items t1 ! j))) rtol atol en = Inr ()"
      using mp(1,2)[OF j] allclose_block_raise_close[OF mp(3,4)[OF j], of rtol atol en] c j by simp
  qed
  then show ?thesis using allclose_raise_matched_keys[OF ok n s] by simp
qed

text \<open>
  Claim C8.  When the keys of the two maps differ (in their names or as sets of rows),
  \<^verbatim>\<open>allclose_raise\<close> raises the error "the tensor maps have different keys" and
  \<^verbatim>\<open>allclose\<close> returns \<open>False\<close>.  When the keys match and \<^verbatim>\<open>allclose_raise\<close> fails, the
  error is that of the first key of \<open>tensor_1\<close> whose blocks differ, raised again under
  the message "blocks for key '<key>' are different", and \<^verbatim>\<open>allclose\<close> returns \<open>False\<close>.
  When the keys match and the blocks under key \<open>i\<close> of \<open>tensor_1\<close> are not close (in their
  values, their labels, their gradient parameters, or the labels or values of a gradient)
  while the blocks under every earlier key are, \<^verbatim>\<open>allclose_raise\<close> raises the error
  "blocks for key '<key i>' are different" and \<^verbatim>\<open>allclose\<close> returns \<open>False\<close>.  When the
  keys match and the blocks under every key are close, \<^verbatim>\<open>allclose_raise\<close> raises nothing
  and \<^verbatim>\<open>allclose\<close> returns \<open>True\<close>.
\<close>

theorem C8_allclose_raise_errors:
  "(names (keys t1) \<noteq> names (keys t2) \<or> set (entries (keys t1)) \<noteq> set (entries (keys t2)) \<longrightarrow>
      allclose_raise t1 t2 rtol atol en = Inl (NotEqualError ''the tensor maps have different keys'')
      \<and> allclose t1 t2 rtol atol en = Inr False)
   \<and> (tensor_ok t1 \<and> tensor_ok t2
       \<and> names (keys t1) = names (keys t2) \<and> set (entries (keys t1)) = set (entries (keys t2))
       \<and> allclose_raise t1 t2 rtol atol en = Inl e \<longrightarrow>
      allclose t1 t2 rtol atol en = Inr False
      \<and> (\<exists>i<length (blocks t1). \<exists>b2 m.
            e = NotEqualError (key_message (entries (keys t1) ! i))
            \<and> block t2 [ByKey (entries (keys t1) ! i)] [] = Inr b2
            \<and> allclose_block_raise (blocks t1 ! i) b2 rtol atol en = Inl (NotEqualError m)
            \<and> (\<forall>j<i. \<exists>b2'. block t2 [ByKey (entries (keys t1) ! j)] [] = Inr b2'
                  \<and> allclose_block_raise (blocks t1 ! j) b2' rtol atol en = Inr ())))
   \<and> (tensor_ok t1 \<and> tensor_ok t2
       \<and> names (keys t1) = names (keys t2) \<and> set (entries (keys t1)) = set (entries (keys t2))
       \<and> i < length (blocks t1)
       \<and> \<not> blocks_close rtol atol en (blocks t1 ! i) (the_block t2 (entries (keys t1) ! i))
       \<and> (\<forall>j<i. blocks_close rtol atol en (blocks t1 ! j) (the_block t2 (entries (keys t1) ! j))) \<longrightarrow>
      allclose_raise t1 t2 rtol atol en = Inl (NotEqualError (key_message (entries (keys t1) ! i)))
      \<and> allclose t1 t2 rtol atol en = Inr False)
   \<and> (tensor_ok t1 \<and> tensor_ok t2
       \<and> names (keys t1) = names (keys t2) \<and> set (entries (keys t1)) = set (entries (keys t2))
       \<and> (\<forall>j<length (blocks t1).
             blocks_close rtol atol en (blocks t1 ! j) (the_block t2 (entries (keys t1) ! j))) \<longrightarrow>
      allclose_raise t1 t2 rtol atol en = Inr ()
      \<and> allclose t1 t2 rtol atol en = Inr True)"
proof (intro conjI impI)
  assume "names (keys t1) \<noteq> names (keys t2) \<or> set (entries (keys t1)) \<noteq> set (entries (keys t2))"
  then have "\<exists>m. check_same_keys t1 t2 ''allclose'' = Some (NotEqualError m)"
    unfolding check_same_keys_def by (simp split: if_splits)
  then obtain m where "check_same_keys t1 t2 ''allclose'' = Some (NotEqualError m)" ..
  then show r: "allclose_raise t1 t2 rtol atol en = Inl (NotEqualError ''the tensor maps have different keys'')"
    by (simp add: allclose_raise_def)
  then show "allclose t1 t2 rtol atol en = Inr False" by (simp add: allclose_def)
next
  assume a: "tensor_ok t1 \<and> tensor_ok t2
       \<and> names (keys t1) = names (keys t2) \<and> set (entries (keys t1)) = set (entries (keys t2))
       \<and> allclose_raise t1 t2 rtol atol en = Inl e"
  then have ok: "tensor_ok t1" "tensor_ok t2" and s: "set (entries (keys t1)) = set (entries (keys t2))"
    by simp_all
  have l1: "length (blocks t1) = length (entries (keys t1))" using ok(1) by (simp add: tensor_ok_def)
  have "length (entries (keys t1)) = length (entries (keys t2))"
    using ok s by (metis distinct_card tensor_ok_def)
  with a have "check_same_keys t1 t2 ''allclose'' = None" by (simp add: check_same_keys_def)
  with a have f: "allclose_items (items t1) t2 rtol atol en = Inl e" by (simp add: allclose_raise_def)
  have "block_ok (snd kb) \<and> (\<exists>b2. block t2 [ByKey (fst kb)] [] = Inr b2 \<and> block_ok b2)"
    if "kb \<in> set (items t1)" for kb
  proof -
    obtain k b where kb: "kb = (k, b)" by (cases kb)
    with that have "k \<in> set (entries (keys t1))" "b \<in> set (blocks t1)"
      by (auto simp: items_def dest: set_zip_leftD set_zip_rightD)
    with kb s have "fst kb \<in> set (entries (keys t2))" "snd kb \<in> set (blocks t1)" by simp_all
    then show ?thesis using block_in_other[OF ok(2)] ok(1) by (auto simp: tensor_ok_def list_all_iff)
  qed
  then have "list_all (\<lambda>kb. block_ok (snd kb) \<and> (\<exists>b2. block t2 [ByKey (fst kb)] [] = Inr b2 \<and> block_ok b2)) (items t1)"
    by (simp add: list_all_iff)
  from allclose_items_error[OF this f]
  obtain i b2 m where i: "i < length (items t1)" "e = NotEqualError (key_message (fst (items t1 ! i)))"
      "block t2 [ByKey (fst (items t1 ! i))] [] = Inr b2"
      "allclose_block_raise (snd (items t1 ! i)) b2 rtol atol en = Inl (NotEqualError m)"
      "\<forall>j<i. \<exists>b2'. block t2 [ByKey (fst (items t1 ! j))] [] = Inr b2'
            \<and> allclose_block_raise (snd (items t1 ! j)) b2' rtol atol en = Inr ()"
    by blast
  have n: "items t1 ! j = (entries (keys t1) ! j, blocks t1 ! j)" if "j \<le> i" for j
    using that i(1) l1 by (simp add: items_def)
  from i(1) have il: "i < length (blocks t1)" by (simp add: items_def)
  show "allclose t1 t2 rtol atol en = Inr False" using a i(2) by (simp add: allclose_def)
  show "\<exists>i<length (blocks t1). \<exists>b2 m.
            e = NotEqualError (key_message (entries (keys t1) ! i))
            \<and> block t2 [ByKey (entries (keys t1) ! i)] [] = Inr b2
            \<and> allclose_block_raise (blocks t1 ! i) b2 rtol atol en = Inl (NotEqualError m)
            \<and> (\<forall>j<i. \<exists>b2'. block t2 [ByKey (entries (keys t1) ! j)] [] = Inr b2'
                  \<and> allclose_block_raise (blocks t1 ! j) b2' rtol atol en = Inr ())"
    using i il n by (intro exI[of _ i]) (auto simp: less_imp_le)
next
  assume "tensor_ok t1 \<and> tensor_ok t2
       \<and> names (keys t1) = names (keys t2) \<and> set (entries (keys t1)) = set (entries (keys t2))
       \<and> i < length (blocks t1)
       \<and> \<not> blocks_close rtol atol en (blocks t1 ! i) (the_block t2 (entries (keys t1) ! i))
       \<and> (\<forall>j<i. blocks_close rtol atol en (blocks t1 ! j) (the_block t2 (entries (keys t1) ! j)))"
  then show "allclose_raise t1 t2 rtol atol en
      = Inl (NotEqualError (key_message (entries (keys t1) ! i)))"
    using allclose_raise_first_difference[of t1 t2 i rtol atol en] by blast
  then show "allclose t1 t2 rtol atol en = Inr False" by (simp add: allclose_def)
next
  assume "tensor_ok t1 \<and> tensor_ok t2
       \<and> names (keys t1) = names (keys t2) \<and> set (entries (keys t1)) = set (entries (keys t2))
       \<and> (\<forall>j<length (blocks t1).
             blocks_close rtol atol en (blocks t1 ! j) (the_block t2 (entries (keys t1) ! j)))"
  then show "allclose_raise t1 t2 rtol atol en = Inr ()"
    using allclose_raise_all_close[of t1 t2 rtol atol en] by blast
  then show "allclose t1 t2 rtol atol en = Inr True" by (simp add: allclose_def)
qed

lemma example_ok: "tensor_ok (example_tensor kn values_1)" "tensor_ok (example_tensor kn values_3)"
  "tensor_ok (example_tensor kn values_nan)"
  by (simp_all add: tensor_ok_def example_tensor_def example_block_def block_ok_def shape_ok_def
      array_ok_def shape_def gradients_list_def values_1_def values_3_def values_nan_def
      same_names_def block_names_def)

lemma example_gradient_ok:
  "tensor_ok (example_gradient_tensor values_1)" "tensor_ok (example_gradient_tensor values_3)"
  by (simp_all add: tensor_ok_def example_gradient_tensor_def example_gradient_block_def block_ok_def
      gradient_ok_def shape_ok_def array_ok_def shape_def gradients_list_def values_1_def values_3_def
      same_names_def block_names_def)

theorem C8_allclose_raise_errors_witness:
  "allclose_raise (example_tensor ''key1'' values_1) (example_tensor ''key2'' values_1)
       default_rtol default_atol False
     = Inl (NotEqualError ''the tensor maps have different keys'')
   \<and> allclose (example_tensor ''key1'' values_1) (example_tensor ''key2'' values_1)
       default_rtol default_atol False = Inr False
   \<and> allclose_raise (example_tensor ''key1'' values_1) (example_tensor ''key1'' values_3)
       default_rtol default_atol False
     = Inl (NotEqualError (''blocks for key '' @ [CHR 0x27] @ ''(0,)'' @ [CHR 0x27] @ '' are different''))
   \<and> allclose (example_tensor ''key1'' values_1) (example_tensor ''key1'' values_3)
       default_rtol default_atol False = Inr False
   \<and> allclose_raise (example_gradient_tensor values_1) (example_gradient_tensor values_3)
       default_rtol default_atol False
     = Inl (NotEqualError (''blocks for key '' @ [CHR 0x27] @ ''(0,)'' @ [CHR 0x27] @ '' are different''))
   \<and> allclose (example_gradient_tensor values_1) (example_gradient_tensor values_3)
       default_rtol default_atol False = Inr False
   \<and> allclose_raise (example_gradient_tensor values_1) (example_gradient_tensor values_1)
       default_rtol default_atol False = Inr ()
   \<and> allclose (example_gradient_tensor values_1) (example_gradient_tensor values_1)
       default_rtol default_atol False = Inr True"
proof -
  have k: "names (keys (example_tensor ''key1'' values_1)) \<noteq> names (keys (example_tensor ''key2'' values_1))"
    by (simp add: example_tensor_def)
  have e: "allclose_raise (example_tensor ''key1'' values_1) (example_tensor ''key1'' values_3)
       default_rtol default_atol False
     = Inl (NotEqualError (''blocks for key '' @ [CHR 0x27] @ ''(0,)'' @ [CHR 0x27] @ '' are different''))"
    by (simp add: allclose_raise_def check_same_keys_def example_tensor_def items_def block_def
        blocks_matching_def row_matches_def allclose_block_raise_def example_block_def shape_def
        np_allclose_def values_1_def values_3_def default_rtol_def default_atol_def str_key_def
        str_int_def)
  have d: "\<not> blocks_close default_rtol default_atol False
       (blocks (example_gradient_tensor values_1) ! 0)
       (the_block (example_gradient_tensor values_3)
          (entries (keys (example_gradient_tensor values_1)) ! 0))"
    by (simp add: blocks_close_def gradient_close_def arrays_close_def metadata_equal_def
        example_gradient_tensor_def example_gradient_block_def the_block_def shape_def
        gradients_list_def values_1_def values_3_def default_rtol_def default_atol_def)
  have c: "\<forall>j<length (blocks (example_gradient_tensor values_1)).
      blocks_close default_rtol default_atol False
       (blocks (example_gradient_tensor values_1) ! j)
       (the_block (example_gradient_tensor values_1)
          (entries (keys (example_gradient_tensor values_1)) ! j))"
    by (simp add: blocks_close_def gradient_close_def arrays_close_def metadata_equal_def
        example_gradient_tensor_def example_gradient_block_def the_block_def shape_def
        gradients_list_def values_1_def default_rtol_def default_atol_def)
  have m: "key_message (entries (keys (example_gradient_tensor values_1)) ! 0)
      = ''blocks for key '' @ [CHR 0x27] @ ''(0,)'' @ [CHR 0x27] @ '' are different''"
    by (simp add: key_message_def example_gradient_tensor_def str_key_def str_int_def)
  have s: "names (keys (example_gradient_tensor values_1)) = names (keys (example_gradient_tensor values_3))"
    "set (entries (keys (example_gradient_tensor values_1)))
      = set (entries (keys (example_gradient_tensor values_3)))"
    "0 < length (blocks (example_gradient_tensor values_1))"
    by (simp_all add: example_gradient_tensor_def)
  have g: "allclose_raise (example_gradient_tensor values_1) (example_gradient_tensor values_3)
       default_rtol default_atol False
     = Inl (NotEqualError (''blocks for key '' @ [CHR 0x27] @ ''(0,)'' @ [CHR 0x27] @ '' are different''))
   \<and> allclose (example_gradient_tensor values_1) (example_gradient_tensor values_3)
       default_rtol default_atol False = Inr False"
    using C8_allclose_raise_errors[of "example_gradient_tensor values_1" "example_gradient_tensor values_3"
        default_rtol default_atol False undefined 0, THEN conjunct2, THEN conjunct2, THEN conjunct1]
      example_gradient_ok s d m by simp
  have h: "allclose_raise (example_gradient_tensor values_1) (example_gradient_tensor values_1)
       default_rtol default_atol False = Inr ()
   \<and> allclose (example_gradient_tensor values_1) (example_gradient_tensor values_1)
       default_rtol default_atol False = Inr True"
    using C8_allclose_raise_errors[of "example_gradient_tensor values_1" "example_gradient_tensor values_1"
        default_rtol default_atol False undefined 0, THEN conjunct2, THEN conjunct2, THEN conjunct2]
      example_gradient_ok(1) c by simp
  have f: "allclose_raise (example_tensor ''key1'' values_1) (example_tensor ''key2'' values_1)
       default_rtol default_atol False
     = Inl (NotEqualError ''the tensor maps have different keys'')
   \<and> allclose (example_tensor ''key1'' values_1) (example_tensor ''key2'' values_1)
       default_rtol default_atol False = Inr False"
    using C8_allclose_raise_errors[of "example_tensor ''key1'' values_1" "example_tensor ''key2'' values_1"
        default_rtol default_atol False undefined 0, THEN conjunct1] k by simp
  have v: "allclose (example_tensor ''key1'' values_1) (example_tensor ''key1'' values_3)
       default_rtol default_atol False = Inr False"
    using C8_allclose_raise_errors[of "example_tensor ''key1'' values_1" "example_tensor ''key1'' values_3"
        default_rtol default_atol False
        "NotEqualError (''blocks for key '' @ [CHR 0x27] @ ''(0,)'' @ [CHR 0x27] @ '' are different'')" 0,
        THEN conjunct2, THEN conjunct1]
      e example_ok by (simp add: example_tensor_def)
  from f e v g h show ?thesis by simp
qed

text \<open>
  Claim C4, amended.  For every TensorMap \<open>T\<close> that holds no NaN, in its values or in the
  values of its gradients, \<^verbatim>\<open>allclose_raise(T, T)\<close> with the default arguments raises
  nothing and \<^verbatim>\<open>allclose(T, T)\<close> returns \<open>True\<close>.  With \<open>equal_nan=False\<close> a NaN is not
  close to itself, so a map that holds one differs from itself, as the counterexample shows
  on the block of the docstring of \<^verbatim>\<open>allclose_raise\<close>.
\<close>

theorem C4_allclose_self:
  assumes "tensor_ok T" "no_nan T"
  shows "allclose_raise T T default_rtol default_atol False = Inr ()
         \<and> allclose T T default_rtol default_atol False = Inr True"
proof -
  have "allclose_items (items T) T default_rtol default_atol False = Inr ()"
    using items_ok[OF assms] by (intro allclose_items_refl) (simp_all add: default_rtol_def default_atol_def)
  then have "allclose_raise T T default_rtol default_atol False = Inr ()"
    by (simp add: allclose_raise_def check_same_keys_def)
  then show ?thesis by (simp add: allclose_def)
qed

theorem C4_allclose_self_witness:
  "tensor_ok (example_tensor ''key'' values_1) \<and> no_nan (example_tensor ''key'' values_1)
   \<and> allclose_raise (example_tensor ''key'' values_1) (example_tensor ''key'' values_1)
       default_rtol default_atol False = Inr ()
   \<and> allclose (example_tensor ''key'' values_1) (example_tensor ''key'' values_1)
       default_rtol default_atol False = Inr True"
proof -
  have n: "no_nan (example_tensor ''key'' values_1)"
    by (simp add: no_nan_def no_nan_block_def no_nan_array_def example_tensor_def example_block_def
        values_1_def)
  show ?thesis using C4_allclose_self[OF example_ok(1) n] example_ok(1) n by simp
qed

theorem C4_allclose_self_nan_counterexample:
  "tensor_ok (example_tensor ''key'' values_nan)
   \<and> allclose_raise (example_tensor ''key'' values_nan) (example_tensor ''key'' values_nan)
       default_rtol default_atol False
     = Inl (NotEqualError (''blocks for key '' @ [CHR 0x27] @ ''(0,)'' @ [CHR 0x27] @ '' are different''))
   \<and> allclose (example_tensor ''key'' values_nan) (example_tensor ''key'' values_nan)
       default_rtol default_atol False = Inr False"
proof -
  have "allclose_raise (example_tensor ''key'' values_nan) (example_tensor ''key'' values_nan)
       default_rtol default_atol False
     = Inl (NotEqualError (''blocks for key '' @ [CHR 0x27] @ ''(0,)'' @ [CHR 0x27] @ '' are different''))"
    by (simp add: allclose_raise_def check_same_keys_def example_tensor_def items_def block_def
        blocks_matching_def row_matches_def allclose_block_raise_def example_block_def shape_def
        np_allclose_def values_nan_def default_rtol_def default_atol_def str_key_def
        str_int_def)
  then show ?thesis using example_ok(3) by (simp add: allclose_def)
qed

subsection \<open>Dividing two blocks\<close>

lemma and_then_Inr [simp]: "and_then (Inr v) f = f v"
  by (simp add: and_then_def)

lemma and_then_Inl [simp]: "and_then (Inl e) f = Inl e"
  by (simp add: and_then_def)

lemma collect_map:
  "(\<And>x. x \<in> set xs \<Longrightarrow> f x = Inr (g x)) \<Longrightarrow> collect f xs = Inr (map g xs)"
  by (induction xs) simp_all

lemma filter_sorted_split:
  fixes c :: "'a \<Rightarrow> int"
  shows "sorted (map c xs) \<Longrightarrow>
    filter (\<lambda>j. c j < n) xs @ filter (\<lambda>j. c j = n) xs = filter (\<lambda>j. c j < n + 1) xs"
proof (induction xs)
  case Nil
  then show ?case by simp
next
  case (Cons x xs)
  then have ih: "filter (\<lambda>j. c j < n) xs @ filter (\<lambda>j. c j = n) xs = filter (\<lambda>j. c j < n + 1) xs"
    and le: "\<And>y. y \<in> set xs \<Longrightarrow> c x \<le> c y"
    by auto
  show ?case
  proof (cases "c x < n")
    case True
    with ih show ?thesis by simp
  next
    case False
    then have "filter (\<lambda>j. c j < n) xs = []"
      using le by (fastforce simp: filter_empty_conv)
    with ih False show ?thesis by auto
  qed
qed

lemma where_equal_sorted:
  assumes "sorted col"
  shows "concat (map (where_equal col) [0 ..< n]) = filter (\<lambda>j. col ! j < int n) (filter (\<lambda>j. 0 \<le> col ! j) [0 ..< length col])"
proof (induction n)
  case 0
  show ?case by (auto simp: filter_empty_conv)
next
  case (Suc n)
  let ?xs = "filter (\<lambda>j. 0 \<le> col ! j) [0 ..< length col]"
  have "sorted (map (\<lambda>j. col ! j) [0 ..< length col])"
    using assms by (simp add: map_nth)
  then have s: "sorted (map (\<lambda>j. col ! j) ?xs)"
    by (metis sorted_filter)
  have w: "where_equal col n = filter (\<lambda>j. col ! j = int n) ?xs"
    by (auto simp: where_equal_def intro!: filter_cong)
  have "int n + 1 = int (Suc n)" by simp
  with filter_sorted_split[OF s, of "int n"] Suc w show ?case by simp
qed

lemma where_equal_all:
  assumes "sorted col" "list_all (\<lambda>x. 0 \<le> x \<and> nat x < n) col"
  shows "concat (map (where_equal col) [0 ..< n]) = [0 ..< length col]"
proof -
  have "\<And>j. j < length col \<Longrightarrow> 0 \<le> col ! j \<and> col ! j < int n"
    using assms(2) by (auto simp: list_all_length)
  then show ?thesis
    unfolding where_equal_sorted[OF assms(1)] by (simp add: filter_id_conv)
qed

lemma quotient_rule_code:
  assumes "length a = length da" "length b = length da" "length db = length da"
  shows "map2 (+) (map2 (/) (map2 (*) (map uminus a) db) (map (\<lambda>x. x ^ 2) b)) (map2 (/) da b)
         = quotient_rule a b da db"
  using assms by (auto simp: quotient_rule_def intro!: nth_equalityI)

lemma column_sample:
  assumes "gradient_ok parent g"
  shows "column (samples g) ''sample'' = Inr (map hd (entries (samples g)))"
proof -
  from assms have "take 1 (names (samples g)) = [''sample'']" by (simp add: gradient_ok_def)
  then obtain rest where n: "names (samples g) = ''sample'' # rest"
    by (cases "names (samples g)") auto
  have "r ! 0 = hd r" if "r \<in> set (entries (samples g))" for r
    using that assms by (auto simp: gradient_ok_def list_all_iff hd_conv_nth)
  with n show ?thesis by (simp add: column_def)
qed

lemma map2_map_map:
  "map2 F (map f1 (map f2 (map g xs))) (map f3 (map h xs))
     = map (\<lambda>j. F (f1 (f2 (g j))) (f3 (h j))) xs"
  by (induction xs) simp_all

lemma array_ok_nth:
  "array_ok a \<Longrightarrow> j < length (rows a) \<Longrightarrow> length (rows a ! j) = prod_list (tail_shape a)"
  by (simp add: array_ok_def list_all_length)

lemma shape_ok_facts:
  assumes "shape_ok b"
  shows "length (rows (block_values b)) = length (entries (samples b))"
    and "tail_shape (block_values b)
           = map (\<lambda>c. length (entries c)) (components b) @ [length (entries (properties b))]"
    and "array_ok (block_values b)"
  using assms by (simp_all add: shape_ok_def shape_def)

lemma value_grad_rows:
  assumes ok: "block_ok b1" "block_ok b2"
    and meta: "same_metadata b1 b2"
    and g1: "(p, g1) \<in> set (gradients b1)"
    and g2: "(p, g2) \<in> set (gradients b2)"
    and gs: "samples g1 = samples g2"
    and i: "i < length (entries (samples b1))"
  shows "value_grad b1 b2 g1 g2 i =
           Inr (NDArray (tail_shape (block_values g1))
                  (map (\<lambda>j. quotient_rule (rows (block_values b1) ! i) (rows (block_values b2) ! i)
                              (rows (block_values g1) ! j) (rows (block_values g2) ! j))
                     (where_equal (map hd (entries (samples g1))) i)))"
proof -
  let ?col = "map hd (entries (samples g1))"
  let ?idx = "where_equal ?col i"
  let ?T = "tail_shape (block_values g1)"
  have go1: "gradient_ok b1 g1" and go2: "gradient_ok b2 g2"
    using ok g1 g2 by (auto simp: block_ok_def list_all_iff)
  have s1: "shape_ok b1" and s2: "shape_ok b2" using ok by (simp_all add: block_ok_def)
  have sg1: "shape_ok g1" and sg2: "shape_ok g2" using go1 go2 by (simp_all add: gradient_ok_def)
  have c1: "column (samples g1) ''sample'' = Inr ?col" using go1 by (rule column_sample)
  have c2: "column (samples g2) ''sample'' = Inr ?col" using column_sample[OF go2] gs by simp
  have t1: "tail_shape (block_values b1) = ?T"
    using shape_ok_facts(2)[OF s1] shape_ok_facts(2)[OF sg1] go1 by (simp add: gradient_ok_def)
  have t2: "tail_shape (block_values b2) = ?T"
    using shape_ok_facts(2)[OF s2] shape_ok_facts(2)[OF s1] t1 meta by (simp add: same_metadata_def)
  have tg2: "tail_shape (block_values g2) = ?T"
    using shape_ok_facts(2)[OF sg2] shape_ok_facts(2)[OF s2] t2 go2 by (simp add: gradient_ok_def)
  have i1: "i < length (rows (block_values b1))" using shape_ok_facts(1)[OF s1] i by simp
  have i2: "i < length (rows (block_values b2))"
    using shape_ok_facts(1)[OF s2] i meta by (simp add: same_metadata_def)
  have m1: "length (rows (block_values g1)) = length ?col" using shape_ok_facts(1)[OF sg1] by simp
  have m2: "length (rows (block_values g2)) = length ?col"
    using shape_ok_facts(1)[OF sg2] gs by simp
  have idx: "\<And>j. j \<in> set ?idx \<Longrightarrow> j < length ?col" by (auto simp: where_equal_def)
  have r1: "row (block_values b1) i = Inr (SubArray ?T (rows (block_values b1) ! i))"
    using i1 t1 by (simp add: row_def)
  have r2: "row (block_values b2) i = Inr (SubArray ?T (rows (block_values b2) ! i))"
    using i2 t2 by (simp add: row_def)
  have k1: "take_rows (block_values g1) ?idx = Inr (NDArray ?T (map (\<lambda>j. rows (block_values g1) ! j) ?idx))"
    using idx m1 by (simp add: take_rows_def list_all_iff)
  have k2: "take_rows (block_values g2) ?idx = Inr (NDArray ?T (map (\<lambda>j. rows (block_values g2) ! j) ?idx))"
    using idx m2 tg2 by (simp add: take_rows_def list_all_iff)
  have la: "length (rows (block_values b1) ! i) = prod_list ?T"
    using array_ok_nth[OF shape_ok_facts(3)[OF s1] i1] t1 by simp
  have lb: "length (rows (block_values b2) ! i) = prod_list ?T"
    using array_ok_nth[OF shape_ok_facts(3)[OF s2] i2] t2 by simp
  have l1: "\<And>j. j \<in> set ?idx \<Longrightarrow> length (rows (block_values g1) ! j) = prod_list ?T"
    using array_ok_nth[OF shape_ok_facts(3)[OF sg1]] idx m1 by simp
  have l2: "\<And>j. j \<in> set ?idx \<Longrightarrow> length (rows (block_values g2) ! j) = prod_list ?T"
    using array_ok_nth[OF shape_ok_facts(3)[OF sg2]] idx m2 tg2 by simp
  have q: "map2 (+) (map2 (/) (map2 (*) (map uminus (rows (block_values b1) ! i)) (rows (block_values g2) ! j))
                         (map (\<lambda>x. x ^ 2) (rows (block_values b2) ! i)))
                    (map2 (/) (rows (block_values g1) ! j) (rows (block_values b2) ! i))
           = quotient_rule (rows (block_values b1) ! i) (rows (block_values b2) ! i)
               (rows (block_values g1) ! j) (rows (block_values g2) ! j)"
    if "j \<in> set ?idx" for j
    using la lb l1[OF that] l2[OF that] by (intro quotient_rule_code) simp_all
  have "value_grad b1 b2 g1 g2 i =
          Inr (NDArray ?T (map (\<lambda>j.
            map2 (+) (map2 (/) (map2 (*) (map uminus (rows (block_values b1) ! i)) (rows (block_values g2) ! j))
                         (map (\<lambda>x. x ^ 2) (rows (block_values b2) ! i)))
                    (map2 (/) (rows (block_values g1) ! j) (rows (block_values b2) ! i))) ?idx))"
    by (simp add: value_grad_def c1 c2 r1 r2 k1 k2 sub_op_rows_def rows_op_sub_def iadd_def
        map2_map_map del: map_map)
  also have "\<dots> = Inr (NDArray ?T (map (\<lambda>j. quotient_rule (rows (block_values b1) ! i) (rows (block_values b2) ! i)
                              (rows (block_values g1) ! j) (rows (block_values g2) ! j)) ?idx))"
    using q by simp
  finally show ?thesis .
qed

lemma concatenate_same_tail:
  "arrays \<noteq> [] \<Longrightarrow> (\<And>a. a \<in> set arrays \<Longrightarrow> tail_shape a = T) \<Longrightarrow>
     concatenate arrays = Inr (NDArray T (concat (map rows arrays)))"
  by (cases arrays) (auto simp: concatenate_def list_all_iff)

lemma gradient_values_grouped:
  assumes ok: "block_ok b1" "block_ok b2"
    and meta: "same_metadata b1 b2"
    and g1: "(p, g1) \<in> set (gradients b1)"
    and g2: "(p, g2) \<in> set (gradients b2)"
    and gs: "samples g1 = samples g2"
    and ne: "entries (samples b1) \<noteq> []"
  shows "and_then (collect (value_grad b1 b2 g1 g2) [0 ..< length (entries (samples b1))]) concatenate
           = Inr (block_values (grouped_gradient b1 b2 g1 g2))"
proof -
  let ?n = "length (entries (samples b1))"
  let ?col = "map hd (entries (samples g1))"
  let ?T = "tail_shape (block_values g1)"
  let ?Q = "\<lambda>i j. quotient_rule (rows (block_values b1) ! i) (rows (block_values b2) ! i)
                              (rows (block_values g1) ! j) (rows (block_values g2) ! j)"
  let ?A = "\<lambda>i. NDArray ?T (map (?Q i) (where_equal ?col i))"
  have "collect (value_grad b1 b2 g1 g2) [0 ..< ?n] = Inr (map ?A [0 ..< ?n])"
    using value_grad_rows[OF ok meta g1 g2 gs] by (intro collect_map) simp
  moreover have "concatenate (map ?A [0 ..< ?n]) = Inr (NDArray ?T (concat (map rows (map ?A [0 ..< ?n]))))"
    using ne by (intro concatenate_same_tail) auto
  moreover have "concat (map rows (map ?A [0 ..< ?n])) = grouped_rows b1 b2 g1 g2"
    by (simp add: grouped_rows_def comp_def)
  ultimately show ?thesis by (simp add: grouped_gradient_def)
qed

lemma grouped_rows_sorted:
  assumes go: "gradient_ok b1 g1" and srt: "sorted (map hd (entries (samples g1)))"
  shows "grouped_rows b1 b2 g1 g2 = rows (block_values (quotient_gradient b1 b2 g1 g2))"
proof -
  let ?n = "length (entries (samples b1))"
  let ?col = "map hd (entries (samples g1))"
  let ?Q = "\<lambda>i j. quotient_rule (rows (block_values b1) ! i) (rows (block_values b2) ! i)
                              (rows (block_values g1) ! j) (rows (block_values g2) ! j)"
  have eq: "map (?Q i) (where_equal ?col i) = map (\<lambda>j. ?Q (nat (?col ! j)) j) (where_equal ?col i)" for i
    by (auto simp: where_equal_def)
  have "grouped_rows b1 b2 g1 g2
      = concat (map (\<lambda>i. map (?Q i) (where_equal ?col i)) [0 ..< ?n])"
    by (simp add: grouped_rows_def)
  also have "\<dots> = concat (map (\<lambda>i. map (\<lambda>j. ?Q (nat (?col ! j)) j) (where_equal ?col i)) [0 ..< ?n])"
    by (simp only: eq)
  also have "\<dots> = map (\<lambda>j. ?Q (nat (?col ! j)) j) (concat (map (where_equal ?col) [0 ..< ?n]))"
    by (simp add: map_concat comp_def)
  also have "concat (map (where_equal ?col) [0 ..< ?n]) = [0 ..< length ?col]"
  proof (rule where_equal_all[OF srt])
    show "list_all (\<lambda>x. 0 \<le> x \<and> nat x < ?n) ?col"
      using go by (auto simp: gradient_ok_def list_all_iff)
  qed
  finally show ?thesis by (simp add: quotient_gradient_def nth_map cong: map_cong)
qed

lemma length_filter_split:
  fixes c :: "'a \<Rightarrow> int"
  shows "length (filter (\<lambda>j. c j < n) xs) + length (filter (\<lambda>j. c j = n) xs)
           = length (filter (\<lambda>j. c j < n + 1) xs)"
  by (induction xs) auto

lemma length_where_equal:
  "length (concat (map (where_equal col) [0 ..< n]))
     = length (filter (\<lambda>j. col ! j < int n) (filter (\<lambda>j. 0 \<le> col ! j) [0 ..< length col]))"
proof (induction n)
  case 0
  show ?case by (auto simp: filter_empty_conv)
next
  case (Suc n)
  let ?xs = "filter (\<lambda>j. 0 \<le> col ! j) [0 ..< length col]"
  have w: "where_equal col n = filter (\<lambda>j. col ! j = int n) ?xs"
    by (auto simp: where_equal_def intro!: filter_cong)
  have "int n + 1 = int (Suc n)" by simp
  with length_filter_split[of "\<lambda>j. col ! j" "int n" ?xs] Suc w show ?case by simp
qed

lemma length_grouped_rows:
  assumes "gradient_ok b1 g1"
  shows "length (grouped_rows b1 b2 g1 g2) = length (entries (samples g1))"
proof -
  let ?col = "map hd (entries (samples g1))"
  let ?n = "length (entries (samples b1))"
  have "\<And>j. j < length ?col \<Longrightarrow> 0 \<le> ?col ! j \<and> ?col ! j < int ?n"
    using assms by (auto simp: gradient_ok_def list_all_length)
  then have "length (concat (map (where_equal ?col) [0 ..< ?n])) = length ?col"
    unfolding length_where_equal by (simp add: filter_id_conv)
  moreover have "length (grouped_rows b1 b2 g1 g2) = length (concat (map (where_equal ?col) [0 ..< ?n]))"
    by (simp add: grouped_rows_def length_concat comp_def)
  ultimately show ?thesis by simp
qed

lemma same_gradient_samplesD:
  assumes "same_gradient_samples b1 b2" "(p, g1) \<in> set (gradients b1)"
  obtains g2 where "map_of (gradients b2) p = Some g2" "(p, g2) \<in> set (gradients b2)"
    "samples g1 = samples g2"
proof -
  from assms obtain g2 where "map_of (gradients b2) p = Some g2" "samples g1 = samples g2"
    by (auto simp: same_gradient_samples_def list_all_iff split: option.splits)
  then show ?thesis using that by (auto dest: map_of_SomeD)
qed

lemma divide_gradients_grouped:
  assumes ok: "block_ok b1" "block_ok b2"
    and meta: "same_metadata b1 b2"
    and sgs: "same_gradient_samples b1 b2"
    and ne: "entries (samples b1) \<noteq> []"
  shows "set gs \<subseteq> set (gradients b1) \<Longrightarrow> distinct (map fst gs) \<Longrightarrow>
     set (map fst gs) \<inter> set (gradients_list res) = {} \<Longrightarrow>
     components res = components b1 \<Longrightarrow> properties res = properties b1 \<Longrightarrow>
     divide_gradients gs b1 b2 res =
       Inr (TensorBlock (block_values res) (samples res) (components res) (properties res)
              (gradients res @
               map (\<lambda>pg. (fst pg, grouped_gradient b1 b2 (snd pg) (the (map_of (gradients b2) (fst pg))))) gs))"
proof (induction gs arbitrary: res)
  case Nil
  then show ?case by (cases res) simp
next
  case (Cons pg gs)
  obtain p g1 where pg: "pg = (p, g1)" by (cases pg)
  with Cons.prems(1) have in1: "(p, g1) \<in> set (gradients b1)" by simp
  from same_gradient_samplesD[OF sgs in1] obtain g2 where
    g2: "map_of (gradients b2) p = Some g2" "(p, g2) \<in> set (gradients b2)" "samples g1 = samples g2"
    by blast
  have go1: "gradient_ok b1 g1" and go2: "gradient_ok b2 g2"
    using ok in1 g2(2) by (auto simp: block_ok_def list_all_iff)
  let ?qg = "grouped_gradient b1 b2 g1 g2"
  have v: "and_then (collect (value_grad b1 b2 g1 g2) [0 ..< length (entries (samples b1))]) concatenate
           = Inr (block_values ?qg)"
    by (rule gradient_values_grouped[OF ok meta in1 g2(2) g2(3) ne])
  have "shape_ok g1" using go1 by (simp add: gradient_ok_def)
  then have n: "new_TensorBlock (block_values ?qg) (samples g1) (components g1) (properties g1) = Inr ?qg"
    using length_grouped_rows[OF go1, of b2 g2]
    by (simp add: new_TensorBlock_def grouped_gradient_def shape_def shape_ok_def)
  let ?res' = "TensorBlock (block_values res) (samples res) (components res) (properties res)
                 (gradients res @ [(p, ?qg)])"
  have a: "add_gradient res p ?qg = Inr ?res'"
    using Cons.prems(3,4,5) pg go1
    by (simp add: add_gradient_def grouped_gradient_def gradient_ok_def)
  have step: "divide_gradients (pg # gs) b1 b2 res = divide_gradients gs b1 b2 ?res'"
  proof -
    have "gradients_list g1 = []" "gradients_list g2 = []"
      using go1 go2 by (simp_all add: gradient_ok_def gradients_list_def)
    moreover have "gradient b2 p = Inr g2" using g2(1) by (simp add: gradient_def)
    moreover obtain vs where vs: "collect (value_grad b1 b2 g1 g2) [0 ..< length (entries (samples b1))] = Inr vs"
      "concatenate vs = Inr (block_values ?qg)"
      using v by (cases "collect (value_grad b1 b2 g1 g2) [0 ..< length (entries (samples b1))]") auto
    ultimately show ?thesis using n a pg by simp
  qed
  have "divide_gradients gs b1 b2 ?res' =
       Inr (TensorBlock (block_values ?res') (samples ?res') (components ?res') (properties ?res')
              (gradients ?res' @
               map (\<lambda>pg. (fst pg, grouped_gradient b1 b2 (snd pg) (the (map_of (gradients b2) (fst pg))))) gs))"
    using Cons.prems pg by (intro Cons.IH) (auto simp: gradients_list_def)
  with step pg g2(1) show ?case by simp
qed

lemma divide_block_block_grouped:
  assumes ok: "block_ok b1" "block_ok b2"
    and meta: "same_metadata b1 b2"
    and sgs: "same_gradient_samples b1 b2"
    and ne: "entries (samples b1) \<noteq> []"
  shows "divide_block_block b1 b2 = Inr (grouped_block b1 b2)"
proof -
  have s1: "shape_ok b1" and s2: "shape_ok b2" using ok by (simp_all add: block_ok_def)
  have sh: "shape (block_values b1) = shape (block_values b2)"
    using s1 s2 meta by (simp add: shape_ok_def same_metadata_def)
  let ?v = "quotient_values b1 b2"
  have a: "array_op (/) (block_values b1) (block_values b2) = Inr ?v"
    using sh by (simp add: array_op_def quotient_values_def)
  have "shape ?v = shape (block_values b1)" using sh by (simp add: shape_def quotient_values_def)
  then have n: "new_TensorBlock ?v (samples b1) (components b1) (properties b1)
                 = Inr (TensorBlock ?v (samples b1) (components b1) (properties b1) [])"
    using s1 by (simp add: new_TensorBlock_def shape_ok_def)
  have d: "distinct (map fst (gradients b1))" using ok(1) by (simp add: block_ok_def gradients_list_def)
  have "divide_gradients (gradients b1) b1 b2 (TensorBlock ?v (samples b1) (components b1) (properties b1) [])
          = Inr (grouped_block b1 b2)"
    using divide_gradients_grouped[OF ok meta sgs ne, of "gradients b1"
        "TensorBlock ?v (samples b1) (components b1) (properties b1) []"] d
    by (simp add: gradients_list_def grouped_block_def)
  with a n show ?thesis by (simp add: divide_block_block_def)
qed

lemma grouped_block_sorted:
  assumes "block_ok b1" "sorted_gradient_samples b1"
  shows "grouped_block b1 b2 = quotient_block b1 b2"
proof -
  have "grouped_gradient b1 b2 g1 g2 = quotient_gradient b1 b2 g1 g2"
    if "(p, g1) \<in> set (gradients b1)" for p g1 g2
  proof -
    have "gradient_ok b1 g1" "sorted (map hd (entries (samples g1)))"
      using that assms by (auto simp: block_ok_def sorted_gradient_samples_def list_all_iff)
    then show ?thesis
      using grouped_rows_sorted[of b1 g1 b2 g2]
      by (simp add: grouped_gradient_def quotient_gradient_def)
  qed
  then show ?thesis by (auto simp: grouped_block_def quotient_block_def)
qed

subsection \<open>Dividing two TensorMaps\<close>

lemma check_blocks_raise_same:
  "same_metadata b1 b2 \<Longrightarrow> check_blocks_raise b1 b2 fname = None"
  by (simp add: check_blocks_raise_def same_metadata_def labels_differ_refl components_differ_refl)

lemma gradients_differ_no_props:
  "(\<And>p g. (p, g) \<in> set gs \<Longrightarrow> p \<in> set (gradients_list b)) \<Longrightarrow> gradients_differ gs b [] fname = None"
proof (induction gs)
  case Nil
  then show ?case by simp
next
  case (Cons pg gs)
  obtain p g where pg: "pg = (p, g)" by (cases pg)
  with Cons.prems[of p g] have "p \<in> fst ` set (gradients b)" by (simp add: gradients_list_def)
  then obtain g2 where "map_of (gradients b) p = Some g2"
    by (metis domD dom_map_of_conv_image_fst)
  moreover have "gradients_differ gs b [] fname = None"
    using Cons.prems by (intro Cons.IH) auto
  ultimately show ?case using pg by simp
qed

lemma check_same_gradients_raise_same:
  assumes "block_ok b1" "block_ok b2" "same_metadata b1 b2"
  shows "check_same_gradients_raise b1 b2 fname = None"
proof -
  have s: "set (gradients_list b1) = set (gradients_list b2)"
    using assms(3) by (simp add: same_metadata_def)
  have "distinct (gradients_list b1)" "distinct (gradients_list b2)"
    using assms(1,2) by (simp_all add: block_ok_def)
  with s have "length (gradients_list b1) = length (gradients_list b2)"
    by (metis distinct_card)
  moreover have "gradients_differ (gradients b1) b2 [] fname = None"
    using s by (intro gradients_differ_no_props) (force simp: gradients_list_def)
  ultimately show ?thesis
    using s by (simp add: check_same_gradients_raise_def same_gradients_differ_def)
qed

lemma same_names_map:
  "map block_names rs = map block_names bs \<Longrightarrow> same_names rs = same_names bs"
  by (simp add: same_names_def)

lemma divide_grouped:
  assumes "divisible A B"
  shows "divide_tensor A (Tensor B) =
           Inr (TensorMap (keys A)
                  (map (\<lambda>kb. grouped_block (snd kb) (the_block B (fst kb))) (items A)))"
proof -
  from assms have okA: "tensor_ok A" and okB: "tensor_ok B"
    and nm: "names (keys A) = names (keys B)"
    and st: "set (entries (keys A)) = set (entries (keys B))"
    and pairs: "\<And>kb. kb \<in> set (items A) \<Longrightarrow>
        same_metadata (snd kb) (the_block B (fst kb))
        \<and> same_gradient_samples (snd kb) (the_block B (fst kb))
        \<and> entries (samples (snd kb)) \<noteq> []"
    by (simp_all add: divisible_def list_all_iff)
  have lA: "length (blocks A) = length (entries (keys A))" and dA: "distinct (entries (keys A))"
    and dB: "distinct (entries (keys B))"
    using okA okB by (simp_all add: tensor_ok_def)
  have "length (entries (keys A)) = length (entries (keys B))"
    using dA dB st by (metis distinct_card)
  with nm st have k: "check_same_keys_raise A B ''divide'' = None"
    by (simp add: check_same_keys_raise_def check_same_keys_def)
  let ?f = "\<lambda>kb. grouped_block (snd kb) (the_block B (fst kb))"
  have "divide_pair B kb = Inr (?f kb)" if "kb \<in> set (items A)" for kb
  proof -
    obtain key bA where kb: "kb = (key, bA)" by (cases kb)
    with that have "key \<in> set (entries (keys A))" "bA \<in> set (blocks A)"
      by (auto simp: items_def dest: set_zip_leftD set_zip_rightD)
    then have kB: "key \<in> set (entries (keys B))" and bok: "block_ok bA"
      using st okA by (auto simp: tensor_ok_def list_all_iff)
    note tb = the_block_lookup[OF okB kB]
    from pairs[OF that] kb have p: "same_metadata bA (the_block B key)"
      "same_gradient_samples bA (the_block B key)" "entries (samples bA) \<noteq> []"
      by simp_all
    show ?thesis
      using tb(1) check_blocks_raise_same[OF p(1)]
        check_same_gradients_raise_same[OF bok tb(2) p(1)]
        divide_block_block_grouped[OF bok tb(2) p]
      by (simp add: divide_pair_def kb)
  qed
  then have c: "collect (divide_pair B) (items A) = Inr (map ?f (items A))"
    by (rule collect_map)
  have li: "length (items A) = length (entries (keys A))" using lA by (simp add: items_def)
  have "map block_names (map ?f (items A)) = map block_names (map snd (items A))"
    by (simp add: block_names_def grouped_block_def)
  also have "map snd (items A) = blocks A" using lA by (simp add: items_def)
  finally have e: "map block_names (map ?f (items A)) = map block_names (blocks A)" .
  have "same_names (map ?f (items A))"
    using okA same_names_map[OF e] by (simp add: tensor_ok_def)
  with dA li have "new_TensorMap (keys A) (map ?f (items A)) = Inr (TensorMap (keys A) (map ?f (items A)))"
    by (simp add: new_TensorMap_def)
  with k c show ?thesis by (simp add: divide_tensor_def)
qed

lemma small_ok:
  "tensor_ok (small_tensor A_sorted)" "tensor_ok (small_tensor B_sorted)"
  "tensor_ok (small_tensor A_unsorted)" "tensor_ok (small_tensor B_unsorted)"
  by (simp_all add: tensor_ok_def small_tensor_def small_block_def grad_block_def block_ok_def
      shape_ok_def array_ok_def shape_def gradients_list_def same_names_def block_names_def
      gradient_ok_def A_sorted_def B_sorted_def A_unsorted_def B_unsorted_def)

lemma small_divisible:
  "divisible (small_tensor A_sorted) (small_tensor B_sorted)"
  "divisible (small_tensor A_unsorted) (small_tensor B_unsorted)"
  using small_ok
  by (simp_all add: divisible_def)
     (simp_all add: small_tensor_def items_def the_block_def same_metadata_def
      same_gradient_samples_def small_block_def grad_block_def gradients_list_def
      A_sorted_def B_sorted_def A_unsorted_def B_unsorted_def)

lemma quotient_rule_single: "quotient_rule [a] [b] [da] [db] = [da / b - a * db / b ^ 2]"
  by (simp add: quotient_rule_def)

lemma grouped_block_unsorted:
  "grouped_block A_unsorted B_unsorted =
     TensorBlock (NDArray [1] [[1], [1 / 2]]) (Labels [''s''] [[0], [1]]) [] (Labels [''p''] [[0]])
       [(''g'', grad_block [[1], [0]] [[17], [3 / 2]])]"
  by (simp add: grouped_block_def grouped_gradient_def grouped_rows_def quotient_values_def
      where_equal_def small_block_def grad_block_def A_unsorted_def B_unsorted_def
      quotient_rule_single)

lemma quotient_block_unsorted:
  "quotient_block A_unsorted B_unsorted =
     TensorBlock (NDArray [1] [[1], [1 / 2]]) (Labels [''s''] [[0], [1]]) [] (Labels [''p''] [[0]])
       [(''g'', grad_block [[1], [0]] [[3 / 2], [17]])]"
  by (simp add: quotient_block_def quotient_gradient_def quotient_values_def
      small_block_def grad_block_def A_unsorted_def B_unsorted_def
      quotient_rule_single)

lemma quotient_block_sorted:
  "quotient_block A_sorted B_sorted =
     TensorBlock (NDArray [1] [[1], [1 / 2]]) (Labels [''s''] [[0], [1]]) [] (Labels [''p''] [[0]])
       [(''g'', grad_block [[0], [1]] [[17], [3 / 2]])]"
  by (simp add: quotient_block_def quotient_gradient_def quotient_values_def
      small_block_def grad_block_def A_sorted_def B_sorted_def
      quotient_rule_single)

text \<open>
  Claim C10.  \<^verbatim>\<open>divide(A, B)\<close> on two TensorMaps returns, for each gradient, the samples,
  components and properties of \<open>A\<close>'s gradient, and values that are laid out sample after
  sample in ascending order (\<open>grouped_block\<close>).  When each gradient of \<open>A\<close> lists its
  samples in ascending order of the \<open>sample\<close> column, row \<open>j\<close> of the values is the quotient
  rule for the sample that row \<open>j\<close> of the samples refers to (\<open>quotient_block\<close>).  Without
  that order the rows need not correspond: they do not for \<open>A_unsorted\<close> and \<open>B_unsorted\<close>.
\<close>

theorem C10_divide_gradient_layout:
  "divisible A B \<Longrightarrow>
     divide_tensor A (Tensor B)
       = Inr (TensorMap (keys A)
                (map (\<lambda>kb. grouped_block (snd kb) (the_block B (fst kb))) (items A)))
     \<and> (list_all (\<lambda>kb. sorted_gradient_samples (snd kb)) (items A) \<longrightarrow>
          divide_tensor A (Tensor B)
            = Inr (TensorMap (keys A)
                     (map (\<lambda>kb. quotient_block (snd kb) (the_block B (fst kb))) (items A))))
     \<and> grouped_block A_unsorted B_unsorted \<noteq> quotient_block A_unsorted B_unsorted"
proof (intro conjI impI)
  assume d: "divisible A B"
  show g: "divide_tensor A (Tensor B)
       = Inr (TensorMap (keys A)
                (map (\<lambda>kb. grouped_block (snd kb) (the_block B (fst kb))) (items A)))"
    using d by (rule divide_grouped)
  show "divide_tensor A (Tensor B)
            = Inr (TensorMap (keys A)
                     (map (\<lambda>kb. quotient_block (snd kb) (the_block B (fst kb))) (items A)))"
    if s: "list_all (\<lambda>kb. sorted_gradient_samples (snd kb)) (items A)"
  proof -
    have "grouped_block (snd kb) (the_block B (fst kb)) = quotient_block (snd kb) (the_block B (fst kb))"
      if "kb \<in> set (items A)" for kb
    proof -
      obtain k b where kb: "kb = (k, b)" by (cases kb)
      with that have "b \<in> set (blocks A)"
        by (auto simp: items_def dest: set_zip_rightD)
      with kb have "snd kb \<in> set (blocks A)" by simp
      with d have "block_ok (snd kb)" by (simp add: divisible_def tensor_ok_def list_all_iff)
      moreover from s that have "sorted_gradient_samples (snd kb)" by (simp add: list_all_iff)
      ultimately show ?thesis by (rule grouped_block_sorted)
    qed
    then have "map (\<lambda>kb. grouped_block (snd kb) (the_block B (fst kb))) (items A)
             = map (\<lambda>kb. quotient_block (snd kb) (the_block B (fst kb))) (items A)"
      by simp
    with g show ?thesis by simp
  qed
next
  show "grouped_block A_unsorted B_unsorted \<noteq> quotient_block A_unsorted B_unsorted"
    unfolding grouped_block_unsorted quotient_block_unsorted by (simp add: grad_block_def)
qed

theorem C10_divide_gradient_layout_witness:
  "divisible (small_tensor A_sorted) (small_tensor B_sorted)
   \<and> list_all (\<lambda>kb. sorted_gradient_samples (snd kb)) (items (small_tensor A_sorted))
   \<and> divide_tensor (small_tensor A_sorted) (Tensor (small_tensor B_sorted))
       = Inr (small_tensor
               (TensorBlock (NDArray [1] [[1], [1 / 2]]) (Labels [''s''] [[0], [1]]) []
                  (Labels [''p''] [[0]]) [(''g'', grad_block [[0], [1]] [[17], [3 / 2]])]))"
proof -
  have s: "list_all (\<lambda>kb. sorted_gradient_samples (snd kb)) (items (small_tensor A_sorted))"
    by (simp add: items_def small_tensor_def sorted_gradient_samples_def A_sorted_def
        small_block_def grad_block_def)
  have i: "items (small_tensor A_sorted) = [([0], A_sorted)]"
    and b: "the_block (small_tensor B_sorted) [0] = B_sorted"
    and k: "keys (small_tensor A_sorted) = Labels [''key''] [[0]]"
    by (simp_all add: items_def small_tensor_def the_block_def)
  have "divide_tensor (small_tensor A_sorted) (Tensor (small_tensor B_sorted))
          = Inr (TensorMap (Labels [''key''] [[0]]) [quotient_block A_sorted B_sorted])"
    using C10_divide_gradient_layout[OF small_divisible(1), THEN conjunct2, THEN conjunct1] s
    by (simp add: i b k)
  then show ?thesis
    using s small_divisible(1) by (simp add: quotient_block_sorted small_tensor_def)
qed

text \<open>
  Claim C2.  Every gradient of \<^verbatim>\<open>divide(A, B)\<close> should hold, in the rows that refer to a
  sample, the quotient rule for that sample.  For \<open>A_unsorted\<close> and \<open>B_unsorted\<close>, whose
  gradient rows refer to sample 1 and then to sample 0, the returned gradient keeps these
  samples and holds \<open>17\<close>, the derivative for sample 0, in the row that refers to sample 1,
  and \<open>3/2\<close>, the derivative for sample 1, in the row that refers to sample 0; the quotient
  rule gives the two rows the other way round.
\<close>

theorem C2_divide_unsorted_gradient:
  "divide_tensor (small_tensor A_unsorted) (Tensor (small_tensor B_unsorted))
     = Inr (small_tensor
             (TensorBlock (NDArray [1] [[1], [1 / 2]]) (Labels [''s''] [[0], [1]]) []
                (Labels [''p''] [[0]]) [(''g'', grad_block [[1], [0]] [[17], [3 / 2]])]))
   \<and> quotient_block A_unsorted B_unsorted
     = TensorBlock (NDArray [1] [[1], [1 / 2]]) (Labels [''s''] [[0], [1]]) []
         (Labels [''p''] [[0]]) [(''g'', grad_block [[1], [0]] [[3 / 2], [17]])]"
proof -
  have i: "items (small_tensor A_unsorted) = [([0], A_unsorted)]"
    and b: "the_block (small_tensor B_unsorted) [0] = B_unsorted"
    and k: "keys (small_tensor A_unsorted) = Labels [''key''] [[0]]"
    by (simp_all add: items_def small_tensor_def the_block_def)
  have "divide_tensor (small_tensor A_unsorted) (Tensor (small_tensor B_unsorted))
          = Inr (TensorMap (Labels [''key''] [[0]]) [grouped_block A_unsorted B_unsorted])"
    using divide_grouped[OF small_divisible(2)] by (simp add: i b k)
  then show ?thesis
    by (simp add: grouped_block_unsorted quotient_block_unsorted small_tensor_def)
qed

subsection \<open>Validation and numeric work\<close>

lemma allclose_gradients_log_result:
  "snd (allclose_gradients_log gs b2 rtol atol en) = allclose_gradients gs b2 rtol atol en"
  by (induction gs) (auto split: sum.splits bool.splits prod.splits)

lemma allclose_block_raise_log_result:
  "snd (allclose_block_raise_log b1 b2 rtol atol en) = allclose_block_raise b1 b2 rtol atol en"
  using allclose_gradients_log_result[of "gradients b1" b2 rtol atol en]
  by (auto simp: allclose_block_raise_log_def allclose_block_raise_def
      split: sum.splits bool.splits prod.splits option.splits exn.splits)

lemma divide_items_log_result:
  "snd (divide_items_log its B) = collect (divide_pair B) its"
  by (induction its)
     (auto simp: divide_pair_def and_then_def split: sum.splits prod.splits option.splits)

lemma divide_maps_log_result:
  "snd (divide_maps_log A B) = divide_tensor A (Tensor B)"
  using divide_items_log_result[of "items A" B]
  by (auto simp: divide_maps_log_def divide_tensor_def split: option.splits prod.splits)

lemma divide_items_log_checked: "pairs_checked_first (fst (divide_items_log its B))"
  by (induction its) (auto split: sum.splits prod.splits option.splits)

text \<open>
  Claim C7, amended.  \<^verbatim>\<open>divide\<close> on two TensorMaps checks the keys before any other work,
  and checks each pair of blocks (the labels, then the gradient parameters) before it
  divides that pair; \<^verbatim>\<open>allclose_block_raise\<close> checks the shapes of the values before any
  numeric work.  A call that fails at the keys, or at the shapes, has done no numeric
  work.  The logged functions return what \<^verbatim>\<open>divide\<close> and \<^verbatim>\<open>allclose_block_raise\<close> return.
  Not all validation comes first: \<^verbatim>\<open>allclose_block_raise\<close> compares the values before it
  checks the labels, and \<^verbatim>\<open>divide\<close> has divided the earlier pairs of blocks when a later
  pair fails its check, as the counterexample shows.
\<close>

theorem C7_validation_order:
  "fst (divide_maps_log A B)
     = Validation ''_check_same_keys_raise'' # tl (fst (divide_maps_log A B))
   \<and> pairs_checked_first (tl (fst (divide_maps_log A B)))
   \<and> (check_same_keys_raise A B ''divide'' \<noteq> None \<longrightarrow>
        isl (snd (divide_maps_log A B)) \<and> list_all is_validation (fst (divide_maps_log A B)))
   \<and> snd (divide_maps_log A B) = divide_tensor A (Tensor B)
   \<and> hd (fst (allclose_block_raise_log b1 b2 rtol atol en)) = Validation ''values.shape''
   \<and> (shape (block_values b1) \<noteq> shape (block_values b2) \<longrightarrow>
        isl (snd (allclose_block_raise_log b1 b2 rtol atol en))
        \<and> list_all is_validation (fst (allclose_block_raise_log b1 b2 rtol atol en)))
   \<and> snd (allclose_block_raise_log b1 b2 rtol atol en) = allclose_block_raise b1 b2 rtol atol en"
proof (intro conjI impI)
  show "fst (divide_maps_log A B)
     = Validation ''_check_same_keys_raise'' # tl (fst (divide_maps_log A B))"
    by (simp add: divide_maps_log_def split: option.splits prod.splits)
  show "pairs_checked_first (tl (fst (divide_maps_log A B)))"
    using divide_items_log_checked[of "items A" B]
    by (auto simp: divide_maps_log_def split: option.splits prod.splits)
  show "snd (divide_maps_log A B) = divide_tensor A (Tensor B)"
    by (rule divide_maps_log_result)
  show "hd (fst (allclose_block_raise_log b1 b2 rtol atol en)) = Validation ''values.shape''"
    by (simp add: allclose_block_raise_log_def
        split: sum.splits bool.splits prod.splits option.splits exn.splits)
  show "snd (allclose_block_raise_log b1 b2 rtol atol en) = allclose_block_raise b1 b2 rtol atol en"
    by (rule allclose_block_raise_log_result)
next
  assume "check_same_keys_raise A B ''divide'' \<noteq> None"
  then show "isl (snd (divide_maps_log A B))" "list_all is_validation (fst (divide_maps_log A B))"
    by (auto simp: divide_maps_log_def)
next
  assume "shape (block_values b1) \<noteq> shape (block_values b2)"
  then show "isl (snd (allclose_block_raise_log b1 b2 rtol atol en))"
    "list_all is_validation (fst (allclose_block_raise_log b1 b2 rtol atol en))"
    by (simp_all add: allclose_block_raise_log_def)
qed

lemma small_blocks_ok: "block_ok A_sorted" "block_ok B_sorted"
  using small_ok(1,2) by (simp_all add: tensor_ok_def small_tensor_def)

lemma divide_block_block_small: "divide_block_block A_sorted B_sorted = Inr (grouped_block A_sorted B_sorted)"
  by (rule divide_block_block_grouped[OF small_blocks_ok])
     (simp_all add: same_metadata_def same_gradient_samples_def A_sorted_def B_sorted_def
       small_block_def grad_block_def gradients_list_def)

theorem C7_validation_order_witness:
  "check_same_keys_raise (small_tensor A_sorted) (two_blocks B_sorted B_sorted) ''divide'' \<noteq> None
   \<and> divide_maps_log (small_tensor A_sorted) (two_blocks B_sorted B_sorted)
      = ([Validation ''_check_same_keys_raise''],
         Inl (NotEqualError ''inputs to divide should have the same number of blocks''))
   \<and> shape (block_values (example_block values_1 ''properties'')) \<noteq> shape (block_values one_sample)
   \<and> allclose_block_raise_log (example_block values_1 ''properties'') one_sample
        default_rtol default_atol False
      = ([Validation ''values.shape''], Inl (NotEqualError ''values shapes are different''))
   \<and> allclose_block_raise (example_block values_1 ''properties'') one_sample
        default_rtol default_atol False
      = Inl (NotEqualError ''values shapes are different'')
   \<and> pairs_checked_first (tl (fst (divide_maps_log (small_tensor A_sorted) (small_tensor B_sorted))))"
proof -
  have k: "check_same_keys_raise (small_tensor A_sorted) (two_blocks B_sorted B_sorted) ''divide''
             = Some (NotEqualError ''inputs to divide should have the same number of blocks'')"
    by (simp add: check_same_keys_raise_def check_same_keys_def small_tensor_def two_blocks_def)
  have s: "shape (block_values (example_block values_1 ''properties'')) \<noteq> shape (block_values one_sample)"
    by (simp add: example_block_def one_sample_def shape_def values_1_def)
  have d: "divide_maps_log (small_tensor A_sorted) (two_blocks B_sorted B_sorted)
      = ([Validation ''_check_same_keys_raise''],
         Inl (NotEqualError ''inputs to divide should have the same number of blocks''))"
    using k by (simp add: divide_maps_log_def)
  have a: "allclose_block_raise_log (example_block values_1 ''properties'') one_sample
        default_rtol default_atol False
      = ([Validation ''values.shape''], Inl (NotEqualError ''values shapes are different''))"
    using s by (simp add: allclose_block_raise_log_def)
  show ?thesis
    using
      C7_validation_order[of "small_tensor A_sorted" "two_blocks B_sorted B_sorted"
        "example_block values_1 ''properties''" one_sample default_rtol default_atol False]
      C7_validation_order[of "small_tensor A_sorted" "small_tensor B_sorted"
        "example_block values_1 ''properties''" one_sample default_rtol default_atol False]
      k s d a
    by simp
qed

theorem C7_numeric_before_validation_counterexample:
  "allclose_block_raise_log (example_block values_1 ''property_1'')
       (example_block values_1 ''property_2'') default_rtol default_atol False
     = ([Validation ''values.shape'', Numeric ''allclose(values)'', Validation ''_check_blocks''],
        Inl (NotEqualError (''inputs to '' @ [CHR 0x27] @ ''allclose'' @ [CHR 0x27]
               @ '' should have the same properties:'' @ [CHR 0x0A]
               @ ''properties names are not the same or not in the same order'')))
   \<and> divide_maps_log (two_blocks A_sorted A_sorted) (two_blocks B_sorted other_samples)
     = ([Validation ''_check_same_keys_raise'', Validation ''_check_blocks_raise'',
         Validation ''_check_same_gradients_raise'', Numeric ''_divide_block_block'',
         Validation ''_check_blocks_raise''],
        Inl (NotEqualError (''inputs to '' @ [CHR 0x27] @ ''divide'' @ [CHR 0x27]
               @ '' should have the same samples:'' @ [CHR 0x0A]
               @ ''samples are not the same or not in the same order'')))"
proof -
  have 1: "allclose_block_raise_log (example_block values_1 ''property_1'')
       (example_block values_1 ''property_2'') default_rtol default_atol False
     = ([Validation ''values.shape'', Numeric ''allclose(values)'', Validation ''_check_blocks''],
        Inl (NotEqualError (''inputs to '' @ [CHR 0x27] @ ''allclose'' @ [CHR 0x27]
               @ '' should have the same properties:'' @ [CHR 0x0A]
               @ ''properties names are not the same or not in the same order'')))"
    by (simp add: allclose_block_raise_log_def example_block_def values_1_def shape_def
        np_allclose_def default_rtol_def default_atol_def check_blocks_def labels_differ_def)
  have b0: "block (two_blocks B_sorted other_samples) [ByKey [0]] [] = Inr B_sorted"
    and b1: "block (two_blocks B_sorted other_samples) [ByKey [1]] [] = Inr other_samples"
    by (simp_all add: block_def blocks_matching_def two_blocks_def row_matches_def upt_rec)
  have c0: "check_blocks_raise A_sorted B_sorted ''divide'' = None"
    and g0: "check_same_gradients_raise A_sorted B_sorted ''divide'' = None"
    by (simp_all add: check_blocks_raise_def check_same_gradients_raise_def labels_differ_def
        same_gradients_differ_def gradients_list_def A_sorted_def B_sorted_def small_block_def)
  have c1: "check_blocks_raise A_sorted other_samples ''divide''
      = Some (NotEqualError (''inputs to '' @ [CHR 0x27] @ ''divide'' @ [CHR 0x27]
               @ '' should have the same samples:'' @ [CHR 0x0A]
               @ ''samples are not the same or not in the same order''))"
    by (simp add: check_blocks_raise_def labels_differ_def A_sorted_def other_samples_def
        small_block_def)
  have k: "check_same_keys_raise (two_blocks A_sorted A_sorted) (two_blocks B_sorted other_samples) ''divide'' = None"
    by (simp add: check_same_keys_raise_def check_same_keys_def two_blocks_def)
  have i: "items (two_blocks A_sorted A_sorted) = [([0], A_sorted), ([1], A_sorted)]"
    by (simp add: items_def two_blocks_def)
  have 2: "divide_maps_log (two_blocks A_sorted A_sorted) (two_blocks B_sorted other_samples)
     = ([Validation ''_check_same_keys_raise'', Validation ''_check_blocks_raise'',
         Validation ''_check_same_gradients_raise'', Numeric ''_divide_block_block'',
         Validation ''_check_blocks_raise''],
        Inl (NotEqualError (''inputs to '' @ [CHR 0x27] @ ''divide'' @ [CHR 0x27]
               @ '' should have the same samples:'' @ [CHR 0x0A]
               @ ''samples are not the same or not in the same order'')))"
    by (simp add: divide_maps_log_def k i b0 b1 c0 g0 c1 divide_block_block_small)
  from 1 2 show ?thesis by simp
qed

text \<open>
  Claim C1.  On the tensor of the tests, moving \<open>key_1\<close> to the properties gives the keys
  \<open>(0,), (2,), (3,)\<close> under the name \<open>key_2\<close>.  In the first merged block the properties
  are the pairs \<open>(key_1, p)\<close> of the two blocks under \<open>key_2 = 0\<close>; the samples are the union
  of the samples of the two blocks, each once; the values, read by sample, are those the
  test expects, with a zero wherever the contributing block lacks the sample; and the
  gradient \<open>g\<close>, read by sample and direction, has the rows and the zeros the test expects.
\<close>

theorem C1_move_to_properties:
  "(case move_to_properties [''key_1''] tensor of
      Inl e \<Rightarrow> False
    | Inr t \<Rightarrow>
        keys t = Labels [''key_2''] [[0], [2], [3]]
        \<and> length (blocks t) = 3
        \<and> (let b = hd (blocks t) in
             properties b = Labels [''key_1'', ''p''] [[0, 0], [1, 3], [1, 4], [1, 5]]
             \<and> entries (properties b)
                 = map (\<lambda>p. 0 # p) (entries (properties tblock_1))
                   @ map (\<lambda>p. 1 # p) (entries (properties tblock_2))
             \<and> names (samples b) = [''s'']
             \<and> distinct (entries (samples b))
             \<and> set (entries (samples b))
                 = set (entries (samples tblock_1)) \<union> set (entries (samples tblock_2))
             \<and> components b = [Labels [''c''] [[0]]]
             \<and> shape (block_values b) = [5, 1, 4]
             \<and> map (sample_row b) [[0], [1], [2], [3], [4]]
                 = [[1, 2, 2, 2], [0, 2, 2, 2], [1, 0, 0, 0], [0, 2, 2, 2], [1, 0, 0, 0]]
             \<and> (case gradient b ''g'' of
                   Inl e \<Rightarrow> False
                 | Inr g \<Rightarrow>
                     properties g = properties b
                     \<and> names (samples g) = [''sample'', ''g'']
                     \<and> distinct (entries (samples g))
                     \<and> set (labelled_gradient_samples b g)
                         = {([0], [-2]), ([0], [3]), ([3], [-2]), ([4], [3])}
                     \<and> map (gradient_row b g) [([0], [-2]), ([0], [3]), ([3], [-2]), ([4], [3])]
                         = [[11, 12, 12, 12], [0, 12, 12, 12], [0, 12, 12, 12], [11, 0, 0, 0]])))"
  by code_simp

lemma lex_le_refl: "lex_le xs xs"
  by (induction xs) simp_all

lemma lex_le_total: "lex_le xs ys \<or> lex_le ys xs"
  by (induction xs ys rule: lex_le.induct) auto

lemma lex_le_trans: "lex_le xs ys \<Longrightarrow> lex_le ys zs \<Longrightarrow> lex_le xs zs"
proof (induction xs ys arbitrary: zs rule: lex_le.induct)
  case (1 ys)
  then show ?case by simp
next
  case (2 x xs)
  then show ?case by simp
next
  case (3 x xs y ys)
  then show ?case by (cases zs) auto
qed

lemma set_insert_row: "set (insert_row x ys) = insert x (set ys)"
  by (induction ys) auto

lemma sorted_insert_row:
  "sorted_wrt (\<lambda>a b. lex_le (fst a) (fst b)) ys \<Longrightarrow>
     sorted_wrt (\<lambda>a b. lex_le (fst a) (fst b)) (insert_row x ys)"
proof (induction ys)
  case Nil
  then show ?case by simp
next
  case (Cons y ys)
  show ?case
  proof (cases "lex_le (fst x) (fst y)")
    case True
    with Cons.prems show ?thesis by (auto intro: lex_le_trans)
  next
    case False
    then have "lex_le (fst y) (fst x)" using lex_le_total by blast
    with False Cons show ?thesis by (auto simp: set_insert_row)
  qed
qed

lemma sorted_sort_rows: "sorted_wrt (\<lambda>a b. lex_le (fst a) (fst b)) (sort_rows xs)"
  unfolding sort_rows_def by (induction xs) (simp_all add: sorted_insert_row)

text \<open>
  Claim C3.  On the tensor of the tests, moving \<open>key_2\<close> to the samples with
  \<open>sort_samples = True\<close> gives the keys \<open>(0,), (1,), (2,)\<close> under the name \<open>key_1\<close>; the
  samples of every block have the column \<open>key_2\<close> appended, and those of the merged third
  block are in ascending lexicographic order of \<open>(s, key_2)\<close>, with the values and the
  gradient the test expects.  With \<open>sort_samples = False\<close> the samples of the merged block
  are those of the first block of the group followed by those of the second, each in the
  order of its block.
\<close>

theorem C3_move_to_samples:
  "(case move_to_samples [''key_2''] True tensor of
      Inl e \<Rightarrow> False
    | Inr t \<Rightarrow>
        keys t = Labels [''key_1''] [[0], [1], [2]]
        \<and> length (blocks t) = 3
        \<and> samples (blocks t ! 0) = Labels [''s'', ''key_2''] [[0, 0], [2, 0], [4, 0]]
        \<and> samples (blocks t ! 1) = Labels [''s'', ''key_2''] [[0, 0], [1, 0], [3, 0]]
        \<and> (let b = blocks t ! 2 in
             samples b = Labels [''s'', ''key_2'']
                           [[0, 2], [0, 3], [1, 3], [2, 3], [3, 2], [5, 3], [6, 2], [8, 2]]
             \<and> sorted_wrt lex_le (entries (samples b))
             \<and> block_values b
                 = NDArray [3, 1] [[3, 3, 3], [4, 4, 4], [4, 4, 4], [4, 4, 4],
                                   [3, 3, 3], [4, 4, 4], [3, 3, 3], [3, 3, 3]]
             \<and> properties b = Labels [''p''] [[0]]
             \<and> (case gradient b ''g'' of
                   Inl e \<Rightarrow> False
                 | Inr g \<Rightarrow>
                     samples g = Labels [''sample'', ''g''] [[1, 1], [4, -2], [5, 3]]
                     \<and> rows (block_values g) = [[14, 14, 14], [13, 13, 13], [14, 14, 14]])))
   \<and> (case move_to_samples [''key_2''] False tensor of
        Inl e \<Rightarrow> False
      | Inr t \<Rightarrow>
          keys t = Labels [''key_1''] [[0], [1], [2]]
          \<and> samples (blocks t ! 2)
              = Labels [''s'', ''key_2'']
                  [[0, 2], [3, 2], [6, 2], [8, 2], [0, 3], [1, 3], [2, 3], [5, 3]]
          \<and> entries (samples (blocks t ! 2))
              = map (\<lambda>s. s @ [2]) (entries (samples tblock_3))
                @ map (\<lambda>s. s @ [3]) (entries (samples tblock_4))
          \<and> rows (block_values (blocks t ! 2))
              = rows (block_values tblock_3) @ rows (block_values tblock_4))"
  by code_simp

end
